theory Spec2Isabelle
  imports Complex_Main "HOL-Library.AList" "HOL-Library.Log_Nat"
begin

section \<open>Data model (shared/schema.ts)\<close>

text \<open>
  Rows of the tables declared in \<^verbatim>\<open>shared/schema.ts\<close>. Identifiers are the integers of
  the \<^verbatim>\<open>serial\<close>/\<^verbatim>\<open>integer\<close> columns, timestamps are milliseconds since the epoch
  (\<^verbatim>\<open>Date.getTime()\<close>), a nullable column is an \<open>option\<close>, and the \<^verbatim>\<open>text\<close> columns
  \<^verbatim>\<open>user_type\<close> and \<^verbatim>\<open>status\<close> are strings, as in the schema (their TypeScript types
  are erased at run time). A JavaScript number that need not be an integer is the
  rational it is (every finite double is one). Columns that no modelled operation reads
  are left out of \<open>user\<close>, \<open>worker_profile\<close>, \<open>job\<close> and \<open>rating\<close>.
\<close>

definition UserType_WORKER :: string where "UserType_WORKER = ''worker''"
definition UserType_EMPLOYER :: string where "UserType_EMPLOYER = ''employer''"
definition UserType_ADMIN :: string where "UserType_ADMIN = ''admin''"

definition JobStatus_CANCELLED :: string where "JobStatus_CANCELLED = ''cancelled''"


record user =
  user_id :: int
  user_username :: string
  user_fullName :: string
  user_userType :: string
  user_rating :: "rat option"

record worker_profile =
  wp_id :: int
  wp_userId :: int
  wp_skills :: "string list option"

record job =
  job_id :: int
  job_employerId :: int
  job_title :: string
  job_skills :: "string list option"
  job_status :: string

record application =
  app_id :: int
  app_jobId :: int
  app_workerId :: int
  app_coverLetter :: "string option"
  app_resumeUrl :: "string option"
  app_availableToStart :: "int option"
  app_expectedRate :: "int option"
  app_preferredHours :: "string option"
  app_referenceInfo :: "string option"
  app_status :: string
  app_appliedAt :: "int option"
  app_updatedAt :: "int option"

record rating =
  rating_id :: int
  rating_fromUserId :: int
  rating_toUserId :: int
  rating_jobId :: "int option"
  rating_rating :: int

record message =
  msg_id :: int
  msg_fromUserId :: int
  msg_toUserId :: int
  msg_content :: string
  msg_isRead :: bool
  msg_createdAt :: int

record notification =
  ntf_id :: int
  ntf_userId :: int
  ntf_title :: string
  ntf_content :: string
  ntf_type :: string
  ntf_isRead :: bool
  ntf_relatedId :: "int option"
  ntf_createdAt :: int

section \<open>JavaScript numbers\<close>

text \<open>
  A finite double is a rational \<open>m * 2 ^ e\<close> with a mantissa \<open>m\<close> of at most 53 bits.
  \<open>round_binary p x\<close> is the nearest rational with a mantissa of \<open>p\<close> bits, a tie going to
  the even mantissa: with \<open>p = 53\<close> it is what every arithmetic operation and
  \<^verbatim>\<open>parseFloat\<close> return for the exact result \<open>x\<close>. The exponent range is not limited;
  sums and means of ratings and their one-decimal forms are far inside the range of a
  double.
\<close>

definition pow2 :: "int \<Rightarrow> rat" where
  "pow2 e = (if 0 \<le> e then 2 ^ nat e else 1 / 2 ^ nat (- e))"

text \<open>The \<open>e\<close> with \<open>2 ^ e \<le> |x| < 2 ^ (e + 1)\<close>, for \<open>x\<close> other than 0.\<close>

definition exponent :: "rat \<Rightarrow> int" where
  "exponent x =
     (let (p, q) = quotient_of \<bar>x\<bar>; k = bitlen p - bitlen q
      in if pow2 k \<le> \<bar>x\<bar> then k else k - 1)"

definition round_half_even :: "rat \<Rightarrow> int" where
  "round_half_even y =
     (let f = \<lfloor>y\<rfloor>; d = y - of_int f
      in if d < 1 / 2 then f else if 1 / 2 < d then f + 1 else if even f then f else f + 1)"

definition round_binary :: "nat \<Rightarrow> rat \<Rightarrow> rat" where
  "round_binary p x =
     (if x = 0 then 0
      else let ulp = pow2 (exponent x - (int p - 1))
           in of_int (round_half_even (x / ulp)) * ulp)"

definition double :: "rat \<Rightarrow> rat" where
  "double x = round_binary 53 x"

definition js_add :: "rat \<Rightarrow> rat \<Rightarrow> rat" where
  "js_add a b = double (a + b)"

text \<open>\<^verbatim>\<open>a / b\<close> for a divisor other than 0, the only one the code below divides by.\<close>

definition js_div :: "rat \<Rightarrow> rat \<Rightarrow> rat" where
  "js_div a b = double (a / b)"

text \<open>
  \<^verbatim>\<open>x.toFixed(1)\<close>, as the number its string denotes: for \<open>|x| < 10 ^ 21\<close> the string is
  the sign of \<open>x\<close> and \<open>n / 10\<close>, where \<open>n\<close> is the integer for which \<open>n / 10\<close> is nearest to
  \<open>|x|\<close>, the larger one of two; from \<open>10 ^ 21\<close> on it is the string of \<open>x\<close> itself.
  \<^verbatim>\<open>parseFloat\<close> reads a decimal string as the nearest double.
\<close>

definition toFixed_1 :: "rat \<Rightarrow> rat" where
  "toFixed_1 x =
     (if 10 ^ 21 \<le> \<bar>x\<bar> then x else sgn x * of_int \<lfloor>10 * \<bar>x\<bar> + 1 / 2\<rfloor> / 10)"

definition parseFloat :: "rat \<Rightarrow> rat" where
  "parseFloat decimal_value = double decimal_value"

section \<open>MemStorage (class \<^verbatim>\<open>MemStorage\<close>, second part of src/server/auth.ts)\<close>

text \<open>
  Each \<^verbatim>\<open>Map<number, T>\<close> of the class is an association list in insertion order:
  \<^verbatim>\<open>get\<close> is \<open>map_of\<close>, \<^verbatim>\<open>set\<close> is \<open>AList.update\<close> (an existing key keeps its place, a
  new key goes last), \<^verbatim>\<open>delete\<close> is \<open>AList.delete\<close> and \<^verbatim>\<open>Array.from(m.values())\<close> is
  \<open>map snd\<close>.
\<close>

record MemStorage =
  mem_users :: "(int \<times> user) list"
  mem_workerProfiles :: "(int \<times> worker_profile) list"
  mem_jobs :: "(int \<times> job) list"
  mem_applications :: "(int \<times> application) list"
  mem_ratings :: "(int \<times> rating) list"
  mem_messages :: "(int \<times> message) list"
  mem_notifications :: "(int \<times> notification) list"

definition Map_values :: "(int \<times> 'a) list \<Rightarrow> 'a list" where
  "Map_values m = map snd m"

text \<open>
  \<^verbatim>\<open>values.filter(pair).sort((a, b) => a.createdAt.getTime() - b.createdAt.getTime())\<close>;
  \<^verbatim>\<open>Array.prototype.sort\<close> is stable, as \<open>sort_key\<close> is.
\<close>

definition MemStorage_getConversation :: "MemStorage \<Rightarrow> int \<Rightarrow> int \<Rightarrow> message list" where
  "MemStorage_getConversation s user1Id user2Id =
     sort_key msg_createdAt
       (filter (\<lambda>m. (msg_fromUserId m = user1Id \<and> msg_toUserId m = user2Id) \<or>
                     (msg_fromUserId m = user2Id \<and> msg_toUserId m = user1Id))
          (Map_values (mem_messages s)))"


definition MemStorage_getUser :: "MemStorage \<Rightarrow> int \<Rightarrow> user option" where
  "MemStorage_getUser s ident = map_of (mem_users s) ident"





definition MemStorage_getJobApplications :: "MemStorage \<Rightarrow> int \<Rightarrow> application list" where
  "MemStorage_getJobApplications s jobId =
     filter (\<lambda>a. app_jobId a = jobId) (Map_values (mem_applications s))"

text \<open>
  \<^verbatim>\<open>this.jobs.delete(id)\<close>, then one \<^verbatim>\<open>this.applications.delete(application.id)\<close> for each
  application that \<^verbatim>\<open>getJobApplications(id)\<close> returned: the map is keyed by the key the
  entry was stored under, the deletion goes by the \<^verbatim>\<open>id\<close> field of the value.
\<close>

definition MemStorage_deleteJob :: "MemStorage \<Rightarrow> int \<Rightarrow> MemStorage" where
  "MemStorage_deleteJob s ident =
     (let s1 = s\<lparr>mem_jobs := AList.delete ident (mem_jobs s)\<rparr>;
          jobApplications = MemStorage_getJobApplications s1 ident
      in s1\<lparr>mem_applications :=
               fold (\<lambda>a m. AList.delete (app_id a) m) jobApplications (mem_applications s1)\<rparr>)"

definition MemStorage_getUserRatings :: "MemStorage \<Rightarrow> int \<Rightarrow> rating list" where
  "MemStorage_getUserRatings s userId =
     filter (\<lambda>r. rating_toUserId r = userId) (Map_values (mem_ratings s))"

text \<open>
  \<^verbatim>\<open>userRatings.reduce((sum, r) => sum + r.rating, 0)\<close>, then the division by the length,
  which the early return for an empty list keeps from being 0, then
  \<^verbatim>\<open>parseFloat(averageRating.toFixed(1))\<close>.
\<close>

definition totalRating :: "rating list \<Rightarrow> rat" where
  "totalRating userRatings = foldl (\<lambda>sum r. js_add sum (of_int (rating_rating r))) 0 userRatings"

definition averageRating :: "rating list \<Rightarrow> rat" where
  "averageRating userRatings = js_div (totalRating userRatings) (of_nat (length userRatings))"

definition MemStorage_updateUserRating :: "MemStorage \<Rightarrow> int \<Rightarrow> user option \<times> MemStorage" where
  "MemStorage_updateUserRating s userId =
     (case MemStorage_getUser s userId of
        None \<Rightarrow> (None, s)
      | Some u \<Rightarrow>
          let userRatings = MemStorage_getUserRatings s userId
          in if length userRatings = 0 then (Some u, s)
             else
               let updatedUser =
                     u\<lparr>user_rating := Some (parseFloat (toFixed_1 (averageRating userRatings)))\<rparr>
               in (Some updatedUser,
                   s\<lparr>mem_users := AList.update userId updatedUser (mem_users s)\<rparr>))"

section \<open>DatabaseStorage (class \<^verbatim>\<open>DatabaseStorage\<close>, second part of src/server/auth.ts)\<close>

text \<open>
  The relational store behind \<^verbatim>\<open>db\<close>: one list of rows per table, in the order the
  rows were inserted, and the next value of each \<^verbatim>\<open>serial\<close> sequence the modelled
  operations draw from. A \<^verbatim>\<open>select\<close> without \<^verbatim>\<open>orderBy\<close> returns the matching rows in
  table order; \<^verbatim>\<open>orderBy(desc(c))\<close> is a stable sort on the negated column.
\<close>

record Database =
  tbl_users :: "user list"
  tbl_workerProfiles :: "worker_profile list"
  tbl_jobs :: "job list"
  tbl_applications :: "application list"
  tbl_ratings :: "rating list"
  tbl_messages :: "message list"
  tbl_notifications :: "notification list"
  seq_applications :: int
  seq_messages :: int
  seq_notifications :: int

definition orderBy_desc :: "('a \<Rightarrow> int) \<Rightarrow> 'a list \<Rightarrow> 'a list" where
  "orderBy_desc col rows = sort_key (\<lambda>r. - col r) rows"

definition DatabaseStorage_getConversation :: "Database \<Rightarrow> int \<Rightarrow> int \<Rightarrow> message list" where
  "DatabaseStorage_getConversation db user1Id user2Id =
     orderBy_desc msg_createdAt
       (filter (\<lambda>m. (msg_fromUserId m = user1Id \<and> msg_toUserId m = user2Id) \<or>
                     (msg_fromUserId m = user2Id \<and> msg_toUserId m = user1Id))
          (tbl_messages db))"

text \<open>
  The constraints of the schema that the modelled statements can violate are the foreign
  keys (\<^verbatim>\<open>.references(() => t.id)\<close>) and the primary keys; the driver then throws,
  which is the error value, and the statement changes no table. An \<^verbatim>\<open>insert\<close> draws the
  next value of the \<^verbatim>\<open>serial\<close> sequence before the constraints are checked, so a failed
  insert still advances the sequence.
\<close>

datatype db_error =
    ForeignKeyViolation
  | UniqueViolation
  | NumericValueOutOfRange
  | SyntaxError
  | InvalidTextRepresentation
  | CannotCoerce

text \<open>
  The id columns are \<^verbatim>\<open>integer\<close> and \<^verbatim>\<open>serial\<close>: four bytes. A statement that binds a
  number outside that range to such a column throws before it reads a row; \<open>bind_id\<close>
  puts this in front of the result of a query by id.
\<close>

definition int4 :: "int \<Rightarrow> bool" where
  "int4 n = (- 2147483648 \<le> n \<and> n \<le> 2147483647)"

definition bind_id :: "int \<Rightarrow> 'a \<Rightarrow> db_error + 'a" where
  "bind_id ident found = (if int4 ident then Inr found else Inl NumericValueOutOfRange)"

definition DatabaseStorage_getUser :: "Database \<Rightarrow> int \<Rightarrow> user option" where
  "DatabaseStorage_getUser db ident = find (\<lambda>u. user_id u = ident) (tbl_users db)"

definition DatabaseStorage_getWorkerProfile :: "Database \<Rightarrow> int \<Rightarrow> worker_profile option" where
  "DatabaseStorage_getWorkerProfile db userId =
     find (\<lambda>p. wp_userId p = userId) (tbl_workerProfiles db)"

definition DatabaseStorage_getWorkerWithProfile ::
  "Database \<Rightarrow> int \<Rightarrow> (user \<times> worker_profile option) option" where
  "DatabaseStorage_getWorkerWithProfile db userId =
     (case DatabaseStorage_getUser db userId of
        None \<Rightarrow> None
      | Some u \<Rightarrow>
          if user_userType u \<noteq> UserType_WORKER then None
          else Some (u, DatabaseStorage_getWorkerProfile db userId))"

definition DatabaseStorage_getJob :: "Database \<Rightarrow> int \<Rightarrow> job option" where
  "DatabaseStorage_getJob db ident = find (\<lambda>j. job_id j = ident) (tbl_jobs db)"

text \<open>
  \<^verbatim>\<open>sql`${jobs.skills} && ${worker.profile.skills}::text[]`\<close>. The operator \<^verbatim>\<open>&&\<close> is true
  when the two arrays have an element in common; a \<^verbatim>\<open>NULL\<close> column makes the condition
  \<^verbatim>\<open>NULL\<close> and the row is not selected.
\<close>

definition array_overlap :: "string list option \<Rightarrow> string list \<Rightarrow> bool" where
  "array_overlap col arr =
     (case col of None \<Rightarrow> False | Some xs \<Rightarrow> list_ex (\<lambda>x. x \<in> set arr) xs)"

text \<open>
  The \<^verbatim>\<open>sql\<close> template of the query builder does not bind a JavaScript array as one array
  parameter: it writes a parenthesised list with one parameter for each element, so the
  condition that reaches the database is \<^verbatim>\<open>skills && ($1, ..., $n)::text[]\<close>. With no
  element that is \<^verbatim>\<open>()\<close>, a syntax error; with two or more it is a row, which cannot be
  cast to an array; with one element it is \<^verbatim>\<open>$1::text[]\<close>, and the database reads the one
  string as the text of an array. The text of an array begins, after white space, with a
  brace or with the bracket of its dimensions, so a plain skill name is refused. For a
  string that begins so, \<open>array_in\<close> is the reading (the input function of the database's
  array type: \<open>None\<close> for a string that is not the text of an array), taken as a
  parameter.
\<close>

definition array_text_start :: "string \<Rightarrow> bool" where
  "array_text_start str =
     (case str of
        [] \<Rightarrow> False
      | c # cs \<Rightarrow>
          c \<in> {CHR ''{'', CHR ''['', CHR '' '', CHR 0x09, CHR 0x0A, CHR 0x0B, CHR 0x0C, CHR 0x0D})"

definition skills_condition ::
  "(string \<Rightarrow> string list option) \<Rightarrow> string list \<Rightarrow> job list \<Rightarrow> db_error + job list" where
  "skills_condition array_in skills rows =
     (case skills of
        [] \<Rightarrow> Inl SyntaxError
      | [x] \<Rightarrow>
          if \<not> array_text_start x then Inl InvalidTextRepresentation
          else
            (case array_in x of
               None \<Rightarrow> Inl InvalidTextRepresentation
             | Some arr \<Rightarrow> Inr (filter (\<lambda>j. array_overlap (job_skills j) arr) rows))
      | x # y # zs \<Rightarrow> Inl CannotCoerce)"

text \<open>
  The first query of the method is the one of \<^verbatim>\<open>getUser\<close> inside
  \<^verbatim>\<open>getWorkerWithProfile\<close>, which binds \<^verbatim>\<open>workerId\<close>.
\<close>

definition DatabaseStorage_getMatchedJobsForWorker ::
  "Database \<Rightarrow> (string \<Rightarrow> string list option) \<Rightarrow> int \<Rightarrow> db_error + job list" where
  "DatabaseStorage_getMatchedJobsForWorker db array_in workerId =
     (case bind_id workerId (DatabaseStorage_getWorkerWithProfile db workerId) of
        Inl e \<Rightarrow> Inl e
      | Inr None \<Rightarrow> Inr []
      | Inr (Some (worker, None)) \<Rightarrow> Inr []
      | Inr (Some (worker, Some profile)) \<Rightarrow>
          (case wp_skills profile of
             None \<Rightarrow> Inr []
           | Some wskills \<Rightarrow> skills_condition array_in wskills (tbl_jobs db)))"

definition DatabaseStorage_getJobApplications :: "Database \<Rightarrow> int \<Rightarrow> application list" where
  "DatabaseStorage_getJobApplications db jobId =
     filter (\<lambda>a. app_jobId a = jobId) (tbl_applications db)"

text \<open>
  Two statements, not in a transaction: the applications of the job are deleted, then the
  job. The second statement throws when it finds the job and a row still references it
  (\<^verbatim>\<open>ratings.job_id\<close>, \<^verbatim>\<open>applications.job_id\<close>); the first one has taken effect by then.
\<close>

definition DatabaseStorage_deleteJob :: "Database \<Rightarrow> int \<Rightarrow> db_error option \<times> Database" where
  "DatabaseStorage_deleteJob db ident =
     (let db1 = db\<lparr>tbl_applications := filter (\<lambda>a. app_jobId a \<noteq> ident) (tbl_applications db)\<rparr>
      in if list_ex (\<lambda>j. job_id j = ident) (tbl_jobs db1) \<and>
            (list_ex (\<lambda>r. rating_jobId r = Some ident) (tbl_ratings db1) \<or>
             list_ex (\<lambda>a. app_jobId a = ident) (tbl_applications db1))
         then (Some ForeignKeyViolation, db1)
         else (None, db1\<lparr>tbl_jobs := filter (\<lambda>j. job_id j \<noteq> ident) (tbl_jobs db1)\<rparr>))"


subsection \<open>Ratings\<close>

definition DatabaseStorage_getUserRatings :: "Database \<Rightarrow> int \<Rightarrow> rating list" where
  "DatabaseStorage_getUserRatings db userId =
     filter (\<lambda>r. rating_toUserId r = userId) (tbl_ratings db)"

text \<open>
  \<^verbatim>\<open>users.rating\<close> is a \<^verbatim>\<open>real\<close> column: the number written to it is kept with a mantissa
  of 24 bits. \<^verbatim>\<open>updateUser\<close> is modelled for the one patch it is called with,
  \<^verbatim>\<open>{ rating: ... }\<close>; its result is the first updated row.
\<close>

definition real_column :: "rat \<Rightarrow> rat" where
  "real_column x = round_binary 24 x"

definition DatabaseStorage_updateUser :: "Database \<Rightarrow> int \<Rightarrow> rat \<Rightarrow> user option \<times> Database" where
  "DatabaseStorage_updateUser db ident r =
     (let rows = map (\<lambda>u. if user_id u = ident then u\<lparr>user_rating := Some (real_column r)\<rparr> else u)
                   (tbl_users db)
      in (find (\<lambda>u. user_id u = ident) rows, db\<lparr>tbl_users := rows\<rparr>))"

definition DatabaseStorage_updateUserRating ::
  "Database \<Rightarrow> int \<Rightarrow> (db_error + user option) \<times> Database" where
  "DatabaseStorage_updateUserRating db userId =
     (case bind_id userId (DatabaseStorage_getUserRatings db userId) of
        Inl e \<Rightarrow> (Inl e, db)
      | Inr ratings \<Rightarrow>
          if length ratings = 0 then (Inr (DatabaseStorage_getUser db userId), db)
          else
            (case DatabaseStorage_updateUser db userId
                    (parseFloat (toFixed_1 (averageRating ratings))) of
               (updated, db') \<Rightarrow> (Inr updated, db')))"

subsection \<open>Applications\<close>


definition DatabaseStorage_getApplication :: "Database \<Rightarrow> int \<Rightarrow> application option" where
  "DatabaseStorage_getApplication db ident = find (\<lambda>a. app_id a = ident) (tbl_applications db)"



text \<open>
  A \<^verbatim>\<open>Partial<Application>\<close> as it arrives in a request body: the keys of the object in
  order, each with its value, typed as the column is. \<open>Other k\<close> is a key that is not a
  column of the table; the query builder does not put it in the \<^verbatim>\<open>SET\<close> clause.
\<close>

datatype application_field =
    Id int
  | JobId int
  | WorkerId int
  | CoverLetter "string option"
  | ResumeUrl "string option"
  | AvailableToStart "int option"
  | ExpectedRate "int option"
  | PreferredHours "string option"
  | ReferenceInfo "string option"
  | Status string
  | AppliedAt "int option"
  | UpdatedAt "int option"
  | Other string

fun field_key :: "application_field \<Rightarrow> string" where
  "field_key (Id _) = ''id''"
| "field_key (JobId _) = ''jobId''"
| "field_key (WorkerId _) = ''workerId''"
| "field_key (CoverLetter _) = ''coverLetter''"
| "field_key (ResumeUrl _) = ''resumeUrl''"
| "field_key (AvailableToStart _) = ''availableToStart''"
| "field_key (ExpectedRate _) = ''expectedRate''"
| "field_key (PreferredHours _) = ''preferredHours''"
| "field_key (ReferenceInfo _) = ''referenceInfo''"
| "field_key (Status _) = ''status''"
| "field_key (AppliedAt _) = ''appliedAt''"
| "field_key (UpdatedAt _) = ''updatedAt''"
| "field_key (Other k) = k"

definition Object_keys :: "application_field list \<Rightarrow> string list" where
  "Object_keys obj = map field_key obj"

fun set_field :: "application_field \<Rightarrow> application \<Rightarrow> application" where
  "set_field (Id v) a = a\<lparr>app_id := v\<rparr>"
| "set_field (JobId v) a = a\<lparr>app_jobId := v\<rparr>"
| "set_field (WorkerId v) a = a\<lparr>app_workerId := v\<rparr>"
| "set_field (CoverLetter v) a = a\<lparr>app_coverLetter := v\<rparr>"
| "set_field (ResumeUrl v) a = a\<lparr>app_resumeUrl := v\<rparr>"
| "set_field (AvailableToStart v) a = a\<lparr>app_availableToStart := v\<rparr>"
| "set_field (ExpectedRate v) a = a\<lparr>app_expectedRate := v\<rparr>"
| "set_field (PreferredHours v) a = a\<lparr>app_preferredHours := v\<rparr>"
| "set_field (ReferenceInfo v) a = a\<lparr>app_referenceInfo := v\<rparr>"
| "set_field (Status v) a = a\<lparr>app_status := v\<rparr>"
| "set_field (AppliedAt v) a = a\<lparr>app_appliedAt := v\<rparr>"
| "set_field (UpdatedAt v) a = a\<lparr>app_updatedAt := v\<rparr>"
| "set_field (Other k) a = a"

text \<open>
  \<^verbatim>\<open>update(applications).set({...applicationData, updatedAt: new Date()}).where(eq(id))\<close>
  with \<^verbatim>\<open>.returning()\<close>: every row with that id gets the fields of the patch, then
  \<^verbatim>\<open>updatedAt\<close>; the result is the first updated row, \<^verbatim>\<open>undefined\<close> when there is none.
\<close>

definition apply_patch :: "application_field list \<Rightarrow> int \<Rightarrow> application \<Rightarrow> application" where
  "apply_patch applicationData now a =
     (fold set_field applicationData a)\<lparr>app_updatedAt := Some now\<rparr>"

text \<open>
  \<^verbatim>\<open>MemStorage.updateApplication\<close>: the entry stays under the key \<^verbatim>\<open>id\<close> it was found
  under, its value is \<^verbatim>\<open>{...application, ...applicationData, updatedAt: now}\<close>.
\<close>

definition MemStorage_updateApplication ::
  "MemStorage \<Rightarrow> int \<Rightarrow> int \<Rightarrow> application_field list \<Rightarrow> application option \<times> MemStorage" where
  "MemStorage_updateApplication s now ident applicationData =
     (case map_of (mem_applications s) ident of
        None \<Rightarrow> (None, s)
      | Some a \<Rightarrow>
          let updatedApplication = apply_patch applicationData now a
          in (Some updatedApplication,
              s\<lparr>mem_applications := AList.update ident updatedApplication (mem_applications s)\<rparr>))"

definition DatabaseStorage_updateApplication ::
  "Database \<Rightarrow> int \<Rightarrow> int \<Rightarrow> application_field list \<Rightarrow>
     (db_error + application option) \<times> Database" where
  "DatabaseStorage_updateApplication db now ident applicationData =
     (let rows = map (\<lambda>a. if app_id a = ident then apply_patch applicationData now a else a)
                   (tbl_applications db);
          updated = map (apply_patch applicationData now)
                      (filter (\<lambda>a. app_id a = ident) (tbl_applications db))
      in if list_ex (\<lambda>a. DatabaseStorage_getJob db (app_jobId a) = None \<or>
                          DatabaseStorage_getUser db (app_workerId a) = None) updated
         then (Inl ForeignKeyViolation, db)
         else if updated \<noteq> [] \<and> \<not> distinct (map app_id rows) then (Inl UniqueViolation, db)
         else (Inr (case updated of [] \<Rightarrow> None | a # _ \<Rightarrow> Some a),
               db\<lparr>tbl_applications := rows\<rparr>))"

subsection \<open>Messages and notifications\<close>

record insert_message =
  im_fromUserId :: int
  im_toUserId :: int
  im_content :: string

record insert_notification =
  in_userId :: int
  in_title :: string
  in_content :: string
  in_type :: string
  in_relatedId :: "int option"

definition DatabaseStorage_createMessage ::
  "Database \<Rightarrow> int \<Rightarrow> insert_message \<Rightarrow> (db_error + message) \<times> Database" where
  "DatabaseStorage_createMessage db now m =
     (if list_ex (\<lambda>r. msg_id r = seq_messages db) (tbl_messages db)
      then (Inl UniqueViolation, db\<lparr>seq_messages := seq_messages db + 1\<rparr>)
      else if DatabaseStorage_getUser db (im_fromUserId m) = None \<or>
         DatabaseStorage_getUser db (im_toUserId m) = None
      then (Inl ForeignKeyViolation, db\<lparr>seq_messages := seq_messages db + 1\<rparr>)
      else
        let newMessage =
              \<lparr>msg_id = seq_messages db,
               msg_fromUserId = im_fromUserId m,
               msg_toUserId = im_toUserId m,
               msg_content = im_content m,
               msg_isRead = False,
               msg_createdAt = now\<rparr>
        in (Inr newMessage,
            db\<lparr>tbl_messages := tbl_messages db @ [newMessage],
               seq_messages := seq_messages db + 1\<rparr>))"

definition DatabaseStorage_createNotification ::
  "Database \<Rightarrow> int \<Rightarrow> insert_notification \<Rightarrow> (db_error + notification) \<times> Database" where
  "DatabaseStorage_createNotification db now n =
     (if list_ex (\<lambda>r. ntf_id r = seq_notifications db) (tbl_notifications db)
      then (Inl UniqueViolation, db\<lparr>seq_notifications := seq_notifications db + 1\<rparr>)
      else if DatabaseStorage_getUser db (in_userId n) = None
      then (Inl ForeignKeyViolation, db\<lparr>seq_notifications := seq_notifications db + 1\<rparr>)
      else
        let newNotification =
              \<lparr>ntf_id = seq_notifications db,
               ntf_userId = in_userId n,
               ntf_title = in_title n,
               ntf_content = in_content n,
               ntf_type = in_type n,
               ntf_isRead = False,
               ntf_relatedId = in_relatedId n,
               ntf_createdAt = now\<rparr>
        in (Inr newNotification,
            db\<lparr>tbl_notifications := tbl_notifications db @ [newNotification],
               seq_notifications := seq_notifications db + 1\<rparr>))"


section \<open>Routes (src/server/routes.ts)\<close>

text \<open>
  A handler is a function of the store, the clock readings of its \<^verbatim>\<open>new Date()\<close> calls,
  the authenticated user (\<^verbatim>\<open>req.user\<close>; \<open>None\<close> when \<^verbatim>\<open>req.isAuthenticated()\<close> is false)
  and the request body. It returns the response and the store. \<open>storage\<close> is the
  exported \<^verbatim>\<open>new DatabaseStorage()\<close>. The body of a \<^verbatim>\<open>ZodError\<close> response keeps its
  message and drops the list of issues.
\<close>

datatype json_body =
    JMessage string
  | JApplication "application option"
  | JMessageRow message
  | JJobs "job list"

datatype response = Response nat json_body

subsection \<open>POST /api/applications\<close>









subsection \<open>PUT /api/applications/:id\<close>

fun join :: "string \<Rightarrow> string list \<Rightarrow> string" where
  "join sep [] = []"
| "join sep [x] = x"
| "join sep (x # y # ys) = x @ sep @ join sep (y # ys)"

definition allowedFields :: "string list" where
  "allowedFields = [''coverLetter'']"

definition invalidFields :: "application_field list \<Rightarrow> string list" where
  "invalidFields req_body = filter (\<lambda>field. field \<notin> set allowedFields) (Object_keys req_body)"

text \<open>Lines 316 to 320: the update, its answer, and the \<^verbatim>\<open>catch\<close> of a thrown error.\<close>

definition respond_updateApplication ::
  "Database \<Rightarrow> int \<Rightarrow> int \<Rightarrow> application_field list \<Rightarrow> response \<times> Database" where
  "respond_updateApplication db now applicationId req_body =
     (case DatabaseStorage_updateApplication db now applicationId req_body of
        (Inl e, db') \<Rightarrow> (Response 500 (JMessage ''Failed to update application''), db')
      | (Inr updatedApplication, db') \<Rightarrow> (Response 200 (JApplication updatedApplication), db'))"

text \<open>
  \<^verbatim>\<open>job?.employerId !== req.user.id\<close> is true when the job is missing: \<^verbatim>\<open>undefined\<close> is not
  a number.
\<close>

definition PUT_api_applications_id ::
  "Database \<Rightarrow> int \<Rightarrow> user option \<Rightarrow> int \<Rightarrow> application_field list \<Rightarrow> response \<times> Database" where
  "PUT_api_applications_id db now req_user applicationId req_body =
     (case req_user of
        None \<Rightarrow> (Response 401 (JMessage ''Unauthorized''), db)
      | Some u \<Rightarrow>
          (case DatabaseStorage_getApplication db applicationId of
             None \<Rightarrow> (Response 404 (JMessage ''Application not found''), db)
           | Some a \<Rightarrow>
               if user_userType u = ''employer'' then
                 (if map_option job_employerId (DatabaseStorage_getJob db (app_jobId a))
                       \<noteq> Some (user_id u)
                  then (Response 403
                          (JMessage ''You can only update applications for your own jobs''), db)
                  else respond_updateApplication db now applicationId req_body)
               else if user_userType u = ''worker'' then
                 (if app_workerId a \<noteq> user_id u
                  then (Response 403 (JMessage ''You can only update your own applications''), db)
                  else if length (invalidFields req_body) > 0
                  then (Response 403
                          (JMessage (''Workers cannot update these fields: '' @
                                     join '', '' (invalidFields req_body))), db)
                  else respond_updateApplication db now applicationId req_body)
               else respond_updateApplication db now applicationId req_body))"

subsection \<open>The connection registry and \<^verbatim>\<open>app.locals.notifyUser\<close>\<close>

text \<open>
  \<^verbatim>\<open>activeConnections\<close> is a \<^verbatim>\<open>Map<number, WebSocket[]>\<close>. A socket is known by an
  identifier and its \<^verbatim>\<open>readyState\<close>. \<^verbatim>\<open>conn.send(message)\<close> is recorded as the pair of
  the socket and the payload; the function returns its boolean and the sends it made,
  in order.
\<close>

datatype ready_state = CONNECTING | OPEN | CLOSING | CLOSED

record websocket =
  ws_id :: nat
  ws_readyState :: ready_state

definition notifyUser ::
  "(int \<times> websocket list) list \<Rightarrow> int \<Rightarrow> 'p \<Rightarrow> bool \<times> (nat \<times> 'p) list" where
  "notifyUser activeConnections userId notification =
     (case map_of activeConnections userId of
        None \<Rightarrow> (False, [])
      | Some userConnections \<Rightarrow>
          if length userConnections > 0
          then (True, map (\<lambda>conn. (ws_id conn, notification))
                        (filter (\<lambda>conn. ws_readyState conn = OPEN) userConnections))
          else (False, []))"

subsection \<open>POST /api/messages\<close>

text \<open>
  The handler works on the store and the registry, and what it does to the outside is
  written to a log in the order it happens: the two inserts and the socket sends.
\<close>

datatype ws_payload = New_message int int string

datatype effect =
    InsertMessage message
  | InsertNotification notification
  | WsSend nat ws_payload

record server =
  srv_db :: Database
  srv_activeConnections :: "(int \<times> websocket list) list"
  srv_log :: "effect list"

record message_body =
  body_toUserId :: "int option"
  body_content :: "string option"

definition insertMessageSchema_parse :: "message_body \<Rightarrow> int \<Rightarrow> insert_message option" where
  "insertMessageSchema_parse req_body fromUserId =
     (case (body_toUserId req_body, body_content req_body) of
        (Some toUserId, Some content) \<Rightarrow>
          Some \<lparr>im_fromUserId = fromUserId, im_toUserId = toUserId, im_content = content\<rparr>
      | _ \<Rightarrow> None)"

definition POST_api_messages ::
  "server \<Rightarrow> int \<Rightarrow> int \<Rightarrow> user option \<Rightarrow> message_body \<Rightarrow> response \<times> server" where
  "POST_api_messages srv now1 now2 req_user req_body =
     (case req_user of
        None \<Rightarrow> (Response 401 (JMessage ''Unauthorized''), srv)
      | Some u \<Rightarrow>
          (case insertMessageSchema_parse req_body (user_id u) of
             None \<Rightarrow> (Response 400 (JMessage ''Invalid message data''), srv)
           | Some validatedData \<Rightarrow>
               (case DatabaseStorage_createMessage (srv_db srv) now1 validatedData of
                  (Inl e, db1) \<Rightarrow>
                    (Response 500 (JMessage ''Failed to send message''), srv\<lparr>srv_db := db1\<rparr>)
                | (Inr m, db1) \<Rightarrow>
                    (case DatabaseStorage_createNotification db1 now2
                            \<lparr>in_userId = im_toUserId validatedData,
                             in_title = ''New Message'',
                             in_content = ''You have a new message from '' @ user_fullName u,
                             in_type = ''message'',
                             in_relatedId = Some (msg_id m)\<rparr> of
                       (Inl e, db2) \<Rightarrow>
                         (Response 500 (JMessage ''Failed to send message''),
                          srv\<lparr>srv_db := db2, srv_log := srv_log srv @ [InsertMessage m]\<rparr>)
                     | (Inr n, db2) \<Rightarrow>
                         let notification = New_message (msg_id m) (user_id u) (user_fullName u);
                             (delivered, sends) =
                               notifyUser (srv_activeConnections srv)
                                 (im_toUserId validatedData) notification
                         in (Response 201 (JMessageRow m),
                             srv\<lparr>srv_db := db2,
                                 srv_log := srv_log srv @ [InsertMessage m, InsertNotification n] @
                                            map (\<lambda>(c, p). WsSend c p) sends\<rparr>)))))"

subsection \<open>Routing of GET requests\<close>

text \<open>
  Express tries the registered routes in the order of registration and runs the handler
  of the first one whose path matches; none of the handlers here calls \<^verbatim>\<open>next()\<close>. A
  path is its list of segments (letter case and a trailing slash, which Express ignores,
  are taken as normalised), \<^verbatim>\<open>:name\<close> matches any one segment. The table lists the
  \<^verbatim>\<open>app.get\<close> calls of \<^verbatim>\<open>setupAuth\<close> and \<^verbatim>\<open>registerRoutes\<close> in source order.
\<close>

datatype seg = Lit string | Param string

fun match_path :: "seg list \<Rightarrow> string list \<Rightarrow> (string \<times> string) list option" where
  "match_path [] [] = Some []"
| "match_path (Lit l # pat) (x # path) = (if l = x then match_path pat path else None)"
| "match_path (Param name # pat) (x # path) =
     (case match_path pat path of None \<Rightarrow> None | Some params \<Rightarrow> Some ((name, x) # params))"
| "match_path _ _ = None"

datatype get_handler =
    H_user
  | H_jobs
  | H_jobs_employer
  | H_jobs_match_first
  | H_jobs_id
  | H_applications
  | H_messages
  | H_notifications
  | H_workers
  | H_workers_id
  | H_employers_id
  | H_employer_profile
  | H_worker_profile
  | H_jobs_match_second

definition get_routes :: "(seg list \<times> get_handler) list" where
  "get_routes =
     [([Lit ''api'', Lit ''user''], H_user),
      ([Lit ''api'', Lit ''jobs''], H_jobs),
      ([Lit ''api'', Lit ''jobs'', Lit ''employer''], H_jobs_employer),
      ([Lit ''api'', Lit ''jobs'', Lit ''match'', Param ''workerId''], H_jobs_match_first),
      ([Lit ''api'', Lit ''jobs'', Param ''id''], H_jobs_id),
      ([Lit ''api'', Lit ''applications''], H_applications),
      ([Lit ''api'', Lit ''messages''], H_messages),
      ([Lit ''api'', Lit ''notifications''], H_notifications),
      ([Lit ''api'', Lit ''workers''], H_workers),
      ([Lit ''api'', Lit ''workers'', Param ''id''], H_workers_id),
      ([Lit ''api'', Lit ''employers'', Param ''id''], H_employers_id),
      ([Lit ''api'', Lit ''employer-profile''], H_employer_profile),
      ([Lit ''api'', Lit ''worker-profile''], H_worker_profile),
      ([Lit ''api'', Lit ''jobs'', Lit ''match'', Param ''workerId''], H_jobs_match_second)]"

definition route_get :: "string list \<Rightarrow> (get_handler \<times> (string \<times> string) list) option" where
  "route_get path =
     (case find (\<lambda>(pat, h). match_path pat path \<noteq> None) get_routes of
        None \<Rightarrow> None
      | Some (pat, h) \<Rightarrow> map_option (\<lambda>params. (h, params)) (match_path pat path))"

text \<open>
  The two handlers registered for \<^verbatim>\<open>/api/jobs/match/:workerId\<close>. The argument is what
  \<^verbatim>\<open>parseInt(req.params.workerId)\<close> returned: an integer, or \<open>None\<close> for \<^verbatim>\<open>NaN\<close> (and for
  an infinite value), which the first query cannot bind to the id column. Whatever the
  storage throws is caught and answered 500.
\<close>

definition GET_api_jobs_match_first ::
  "(string \<Rightarrow> string list option) \<Rightarrow> Database \<Rightarrow> int option \<Rightarrow> response" where
  "GET_api_jobs_match_first array_in db workerId =
     (case workerId of
        None \<Rightarrow> Response 500 (JMessage ''Failed to retrieve matched jobs'')
      | Some n \<Rightarrow>
          (case DatabaseStorage_getMatchedJobsForWorker db array_in n of
             Inl e \<Rightarrow> Response 500 (JMessage ''Failed to retrieve matched jobs'')
           | Inr matchedJobs \<Rightarrow> Response 200 (JJobs matchedJobs)))"

definition GET_api_jobs_match_second ::
  "(string \<Rightarrow> string list option) \<Rightarrow> Database \<Rightarrow> int option \<Rightarrow> response" where
  "GET_api_jobs_match_second array_in db workerId =
     (case workerId of
        None \<Rightarrow> Response 500 (JMessage ''Failed to retrieve matched jobs'')
      | Some n \<Rightarrow>
          (case bind_id n (DatabaseStorage_getWorkerWithProfile db n) of
             Inl e \<Rightarrow> Response 500 (JMessage ''Failed to retrieve matched jobs'')
           | Inr None \<Rightarrow> Response 404 (JMessage ''Worker not found'')
           | Inr (Some worker) \<Rightarrow>
               (case DatabaseStorage_getMatchedJobsForWorker db array_in n of
                  Inl e \<Rightarrow> Response 500 (JMessage ''Failed to retrieve matched jobs'')
                | Inr matchedJobs \<Rightarrow> Response 200 (JJobs matchedJobs))))"

text \<open>
  A GET request, for the two handlers above: the route is looked up, the handler gets the
  parameter. \<open>parseInt\<close> is JavaScript's, taken as a parameter. The answer is \<open>None\<close> when
  the request goes to a handler that is not modelled, or to none.
\<close>

definition GET_request ::
  "(string \<Rightarrow> int option) \<Rightarrow> (string \<Rightarrow> string list option) \<Rightarrow> Database \<Rightarrow> string list \<Rightarrow>
     response option" where
  "GET_request parseInt array_in db path =
     (case route_get path of
        Some (H_jobs_match_first, params) \<Rightarrow>
          (case map_of params ''workerId'' of
             None \<Rightarrow> None
           | Some w \<Rightarrow> Some (GET_api_jobs_match_first array_in db (parseInt w)))
      | Some (H_jobs_match_second, params) \<Rightarrow>
          (case map_of params ''workerId'' of
             None \<Rightarrow> None
           | Some w \<Rightarrow> Some (GET_api_jobs_match_second array_in db (parseInt w)))
      | _ \<Rightarrow> None)"

section \<open>Vocabulary of the specification\<close>


definition InternalError_match :: response where
  "InternalError_match = Response 500 (JMessage ''Failed to retrieve matched jobs'')"




definition ForbiddenError_employer :: response where
  "ForbiddenError_employer =
     Response 403 (JMessage ''You can only update applications for your own jobs'')"

definition ForbiddenError_fields :: "string list \<Rightarrow> response" where
  "ForbiddenError_fields names =
     Response 403 (JMessage (''Workers cannot update these fields: '' @ join '', '' names))"

text \<open>A message is between \<open>a\<close> and \<open>b\<close> when its sender and recipient are the set \<open>{a, b}\<close>.\<close>

definition between :: "int \<Rightarrow> int \<Rightarrow> message \<Rightarrow> bool" where
  "between a b m = ({msg_fromUserId m, msg_toUserId m} = {a, b})"






text \<open>
  The rating contract in the words of the specification: the arithmetic mean of the
  rating values, and a number rounded to one decimal place, a half going away from zero
  (going to the even digit gives the same on the example below).
\<close>

definition mean :: "rating list \<Rightarrow> rat" where
  "mean rs = of_int (sum_list (map rating_rating rs)) / of_nat (length rs)"

definition round_1 :: "rat \<Rightarrow> rat" where
  "round_1 x = sgn x * of_int \<lfloor>10 * \<bar>x\<bar> + 1 / 2\<rfloor> / 10"

text \<open>Every entry of the applications map is stored under the id of its value.\<close>

definition keys_are_ids :: "(int \<times> application) list \<Rightarrow> bool" where
  "keys_are_ids m = list_all (\<lambda>(k, a). k = app_id a) m"

text \<open>
  The keys of a patch other than the cover letter, and whether the job of an application
  belongs to a user.
\<close>

definition offending :: "application_field list \<Rightarrow> string list" where
  "offending patch = filter (\<lambda>k. k \<noteq> ''coverLetter'') (Object_keys patch)"

definition owns_job_of :: "Database \<Rightarrow> user \<Rightarrow> application \<Rightarrow> bool" where
  "owns_job_of db u a =
     (case DatabaseStorage_getJob db (app_jobId a) of
        None \<Rightarrow> False
      | Some j \<Rightarrow> job_employerId j = user_id u)"

text \<open>The channels registered for a user, and the open ones among them.\<close>

definition registered :: "(int \<times> websocket list) list \<Rightarrow> int \<Rightarrow> websocket list" where
  "registered activeConnections userId =
     (case map_of activeConnections userId of None \<Rightarrow> [] | Some cs \<Rightarrow> cs)"

definition open_channels :: "(int \<times> websocket list) list \<Rightarrow> int \<Rightarrow> websocket list" where
  "open_channels activeConnections userId =
     filter (\<lambda>conn. ws_readyState conn = OPEN) (registered activeConnections userId)"

text \<open>
  What an insert into \<^verbatim>\<open>messages\<close> and \<^verbatim>\<open>notifications\<close> needs of the database: the
  referenced users are rows of \<^verbatim>\<open>users\<close>, and the next values of the two sequences are
  not taken.
\<close>

definition is_user :: "Database \<Rightarrow> int \<Rightarrow> bool" where
  "is_user db ident = (DatabaseStorage_getUser db ident \<noteq> None)"

definition fresh_ids :: "Database \<Rightarrow> bool" where
  "fresh_ids db =
     (\<not> list_ex (\<lambda>r. msg_id r = seq_messages db) (tbl_messages db) \<and>
      \<not> list_ex (\<lambda>r. ntf_id r = seq_notifications db) (tbl_notifications db))"

text \<open>
  The state the two sequences are in when ids only ever come from them: every id in the
  table is below the next value.
\<close>

definition seq_ahead :: "Database \<Rightarrow> bool" where
  "seq_ahead db =
     (list_all (\<lambda>r. msg_id r < seq_messages db) (tbl_messages db) \<and>
      list_all (\<lambda>r. ntf_id r < seq_notifications db) (tbl_notifications db))"

section \<open>Example stores\<close>

definition wendy :: user where
  "wendy = \<lparr>user_id = 1, user_username = ''wendy'', user_fullName = ''Wendy Welder'',
            user_userType = ''worker'', user_rating = Some 0\<rparr>"

definition edgar :: user where
  "edgar = \<lparr>user_id = 2, user_username = ''edgar'', user_fullName = ''Edgar Employer'',
            user_userType = ''employer'', user_rating = Some 0\<rparr>"

definition erin :: user where
  "erin = \<lparr>user_id = 3, user_username = ''erin'', user_fullName = ''Erin Employer'',
           user_userType = ''employer'', user_rating = Some 0\<rparr>"

definition wendy_profile :: worker_profile where
  "wendy_profile = \<lparr>wp_id = 1, wp_userId = 1, wp_skills = Some [''welding'', ''forklift'']\<rparr>"

definition job_warehouse :: job where
  "job_warehouse = \<lparr>job_id = 10, job_employerId = 2, job_title = ''Warehouse'',
                    job_skills = Some [''forklift'', ''painting''], job_status = ''open''\<rparr>"

definition job_decorating :: job where
  "job_decorating = \<lparr>job_id = 11, job_employerId = 2, job_title = ''Decorating'',
                     job_skills = Some [''painting'', ''drywall''], job_status = ''open''\<rparr>"

definition job_finished :: job where
  "job_finished = \<lparr>job_id = 12, job_employerId = 2, job_title = ''Loading'',
                   job_skills = Some [''forklift''], job_status = ''completed''\<rparr>"

definition job_anything :: job where
  "job_anything = \<lparr>job_id = 13, job_employerId = 3, job_title = ''Anything'',
                   job_skills = None, job_status = ''open''\<rparr>"

definition app_warehouse :: application where
  "app_warehouse =
     \<lparr>app_id = 100, app_jobId = 10, app_workerId = 1, app_coverLetter = Some ''Hello'',
      app_resumeUrl = None, app_availableToStart = None, app_expectedRate = None,
      app_preferredHours = None, app_referenceInfo = None, app_status = ''pending'',
      app_appliedAt = Some 1000, app_updatedAt = Some 1000\<rparr>"

definition app_finished :: application where
  "app_finished =
     \<lparr>app_id = 101, app_jobId = 12, app_workerId = 1, app_coverLetter = None,
      app_resumeUrl = None, app_availableToStart = None, app_expectedRate = None,
      app_preferredHours = None, app_referenceInfo = None, app_status = ''accepted'',
      app_appliedAt = Some 500, app_updatedAt = Some 900\<rparr>"

definition msg_first :: message where
  "msg_first = \<lparr>msg_id = 1, msg_fromUserId = 1, msg_toUserId = 2, msg_content = ''Is the job open?'',
                msg_isRead = True, msg_createdAt = 100\<rparr>"

definition msg_second :: message where
  "msg_second = \<lparr>msg_id = 2, msg_fromUserId = 2, msg_toUserId = 1, msg_content = ''Yes, it is.'',
                 msg_isRead = False, msg_createdAt = 200\<rparr>"






definition db_ex :: Database where
  "db_ex =
     \<lparr>tbl_users = [wendy, edgar, erin],
      tbl_workerProfiles = [wendy_profile],
      tbl_jobs = [job_warehouse, job_decorating, job_finished, job_anything],
      tbl_applications = [app_warehouse, app_finished],
      tbl_ratings = [],
      tbl_messages = [msg_first, msg_second],
      tbl_notifications = [],
      seq_applications = 102,
      seq_messages = 3,
      seq_notifications = 1\<rparr>"

definition mem_ex :: MemStorage where
  "mem_ex =
     \<lparr>mem_users = [(1, wendy), (2, edgar), (3, erin)],
      mem_workerProfiles = [(1, wendy_profile)],
      mem_jobs = [(10, job_warehouse), (11, job_decorating), (12, job_finished), (13, job_anything)],
      mem_applications = [(100, app_warehouse), (101, app_finished)],
      mem_ratings = [],
      mem_messages = [(1, msg_first), (2, msg_second)],
      mem_notifications = []\<rparr>"

definition conns_ex :: "(int \<times> websocket list) list" where
  "conns_ex =
     [(2, [\<lparr>ws_id = 7, ws_readyState = OPEN\<rparr>, \<lparr>ws_id = 8, ws_readyState = CLOSING\<rparr>]),
      (1, [\<lparr>ws_id = 9, ws_readyState = CLOSING\<rparr>])]"

definition srv_ex :: server where
  "srv_ex = \<lparr>srv_db = db_ex, srv_activeConnections = conns_ex, srv_log = []\<rparr>"

definition body_to_edgar :: message_body where
  "body_to_edgar = \<lparr>body_toUserId = Some 2, body_content = Some ''When do I start?''\<rparr>"

definition body_to_erin :: message_body where
  "body_to_erin = \<lparr>body_toUserId = Some 3, body_content = Some ''Good morning''\<rparr>"

definition msg_to_edgar :: message where
  "msg_to_edgar = \<lparr>msg_id = 3, msg_fromUserId = 1, msg_toUserId = 2,
                   msg_content = ''When do I start?'', msg_isRead = False, msg_createdAt = 8000\<rparr>"

definition ntf_to_edgar :: notification where
  "ntf_to_edgar = \<lparr>ntf_id = 1, ntf_userId = 2, ntf_title = ''New Message'',
                   ntf_content = ''You have a new message from Wendy Welder'',
                   ntf_type = ''message'', ntf_isRead = False, ntf_relatedId = Some 3,
                   ntf_createdAt = 8001\<rparr>"

definition msg_to_erin :: message where
  "msg_to_erin = \<lparr>msg_id = 3, msg_fromUserId = 1, msg_toUserId = 3,
                  msg_content = ''Good morning'', msg_isRead = False, msg_createdAt = 8000\<rparr>"

definition ntf_to_erin :: notification where
  "ntf_to_erin = \<lparr>ntf_id = 1, ntf_userId = 3, ntf_title = ''New Message'',
                  ntf_content = ''You have a new message from Wendy Welder'',
                  ntf_type = ''message'', ntf_isRead = False, ntf_relatedId = Some 3,
                  ntf_createdAt = 8001\<rparr>"

text \<open>
  \<^verbatim>\<open>parseInt\<close> and the reading of array texts, on the strings of the examples: the three
  numerals are read as their numbers and \<^verbatim>\<open>abc\<close> as \<^verbatim>\<open>NaN\<close>; \<^verbatim>\<open>{forklift}\<close> is the text
  of an array and the skill names are not.
\<close>

definition parseInt_ex :: "string \<Rightarrow> int option" where
  "parseInt_ex str =
     (if str = ''2'' then Some 2
      else if str = ''99'' then Some 99
      else if str = ''99999999999'' then Some 99999999999
      else None)"

definition array_in_ex :: "string \<Rightarrow> string list option" where
  "array_in_ex str = (if str = ''{forklift}'' then Some [''forklift''] else None)"




text \<open>
  Application 100 after \<^verbatim>\<open>updateApplication(100, { id: 7 })\<close> at time 6000.
\<close>

definition app_rekeyed :: application where
  "app_rekeyed = app_warehouse\<lparr>app_id := 7, app_updatedAt := Some 6000\<rparr>"

text \<open>
  Twenty ratings from user 1 to user 2, seven of 5 and thirteen of 4: their sum is 87 and
  their mean 4.35.
\<close>

definition rating_ex :: "int \<Rightarrow> rating" where
  "rating_ex i =
     \<lparr>rating_id = i, rating_fromUserId = 1, rating_toUserId = 2, rating_jobId = None,
      rating_rating = (if i \<le> 7 then 5 else 4)\<rparr>"

definition ratings_ex :: "rating list" where
  "ratings_ex = map rating_ex [1, 2, 3, 4, 5, 6, 7, 8, 9, 10, 11, 12, 13, 14, 15, 16, 17, 18, 19, 20]"

definition db_rated :: Database where
  "db_rated = db_ex\<lparr>tbl_ratings := ratings_ex\<rparr>"

definition mem_rated :: MemStorage where
  "mem_rated = mem_ex\<lparr>mem_ratings := map (\<lambda>r. (rating_id r, r)) ratings_ex\<rparr>"

section \<open>Conversations\<close>

lemma between_eq:
  "between a b = (\<lambda>m. (msg_fromUserId m = a \<and> msg_toUserId m = b) \<or>
                       (msg_fromUserId m = b \<and> msg_toUserId m = a))"
  by (rule ext) (auto simp: between_def doubleton_eq_iff)

lemma sorted_uminus_rev: "sorted (map uminus (ys::int list)) \<Longrightarrow> sorted (rev ys)"
  by (induction ys) (auto simp: sorted_append)

lemma sorted_rev_orderBy_desc: "sorted (rev (map col (orderBy_desc col rows)))"
proof -
  have "sorted (map (\<lambda>r. - col r) (orderBy_desc col rows))"
    unfolding orderBy_desc_def by simp
  then have "sorted (map uminus (map col (orderBy_desc col rows)))"
    by (simp add: comp_def)
  then show ?thesis
    by (rule sorted_uminus_rev)
qed

text \<open>
  The in-memory store keeps the contract: the result holds exactly the messages between
  the two users, each as often as the map holds it, oldest first.
\<close>

lemma MemStorage_getConversation_ascending:
  "set (MemStorage_getConversation s a b) = {m \<in> set (Map_values (mem_messages s)). between a b m}
   \<and> length (MemStorage_getConversation s a b) =
       length (filter (between a b) (Map_values (mem_messages s)))
   \<and> sorted (map msg_createdAt (MemStorage_getConversation s a b))"
  by (simp add: MemStorage_getConversation_def between_eq)

text \<open>
  The relational store selects the same messages and orders them by
  \<^verbatim>\<open>desc(messages.createdAt)\<close>: newest first.
\<close>

lemma DatabaseStorage_getConversation_descending:
  "set (DatabaseStorage_getConversation db a b) = {m \<in> set (tbl_messages db). between a b m}
   \<and> sorted (rev (map msg_createdAt (DatabaseStorage_getConversation db a b)))"
  by (simp add: DatabaseStorage_getConversation_def between_eq sorted_rev_orderBy_desc)
     (simp add: orderBy_desc_def)

text \<open>
  Claim C1: \<^verbatim>\<open>getConversation(A, B)\<close> returns exactly the messages between A and B, sorted
  ascending by creation time. \<^verbatim>\<open>MemStorage.getConversation\<close> does; the exported store is
  the \<^verbatim>\<open>DatabaseStorage\<close>, whose \<^verbatim>\<open>getConversation\<close> orders by \<^verbatim>\<open>desc(createdAt)\<close>. On
  two messages between users 1 and 2, created at 100 and at 200, the database store
  answers with the later one first, and the in-memory store with the earlier one first.
\<close>

theorem DatabaseStorage_getConversation_newest_first:
  "DatabaseStorage_getConversation db_ex 1 2 = [msg_second, msg_first]
   \<and> map msg_createdAt (DatabaseStorage_getConversation db_ex 1 2) = [200, 100]
   \<and> \<not> sorted (map msg_createdAt (DatabaseStorage_getConversation db_ex 1 2))
   \<and> MemStorage_getConversation mem_ex 1 2 = [msg_first, msg_second]"
  by (simp add: DatabaseStorage_getConversation_def MemStorage_getConversation_def
      orderBy_desc_def Map_values_def db_ex_def mem_ex_def msg_first_def msg_second_def)


section \<open>Matching\<close>






text \<open>
  The condition of the database store throws for every skills array whose strings are
  plain names, whatever their number.
\<close>

lemma skills_condition_throws:
  assumes "list_all (\<lambda>x. \<not> array_text_start x) ws"
  shows "\<exists>e. skills_condition array_in ws rows = Inl e"
proof (cases ws)
  case Nil
  then show ?thesis by (simp add: skills_condition_def)
next
  case (Cons x xs)
  then show ?thesis
    using assms by (cases xs) (simp_all add: skills_condition_def)
qed

lemma DatabaseStorage_getMatchedJobsForWorker_throws_plain:
  assumes "int4 w"
    and "DatabaseStorage_getWorkerWithProfile db w = Some (worker, Some profile)"
    and "wp_skills profile = Some ws"
    and "list_all (\<lambda>x. \<not> array_text_start x) ws"
  shows "\<exists>e. DatabaseStorage_getMatchedJobsForWorker db array_in w = Inl e"
  using assms skills_condition_throws [of ws array_in "tbl_jobs db"]
  by (simp add: DatabaseStorage_getMatchedJobsForWorker_def bind_id_def)







section \<open>Deleting a job\<close>

lemma set_fold_delete:
  "set (fold (\<lambda>a m. AList.delete (f a) m) as m) = {(k, v) \<in> set m. k \<notin> f ` set as}"
  by (induction as arbitrary: m) (auto simp: AList.delete_eq)

text \<open>
  The database store deletes the applications by their \<^verbatim>\<open>jobId\<close>: none is left, in any
  state, also when the deletion of the job row itself throws.
\<close>

lemma DatabaseStorage_deleteJob_cascades:
  "DatabaseStorage_getJobApplications (snd (DatabaseStorage_deleteJob db ident)) ident = []"
  by (simp add: DatabaseStorage_getJobApplications_def DatabaseStorage_deleteJob_def Let_def
      filter_empty_conv)

text \<open>
  The in-memory store deletes, for each application of the job, the entry under the key
  \<^verbatim>\<open>application.id\<close>. That removes the application as long as every entry is stored
  under the id of its value.
\<close>

lemma MemStorage_deleteJob_cascades:
  "keys_are_ids (mem_applications s) \<Longrightarrow>
     MemStorage_getJobApplications (MemStorage_deleteJob s ident) ident = []"
  by (force simp: MemStorage_getJobApplications_def MemStorage_deleteJob_def Let_def
      Map_values_def set_fold_delete keys_are_ids_def list_all_iff filter_empty_conv)

text \<open>
  Claim C7: for every job id, after \<^verbatim>\<open>deleteJob(id)\<close> no application that references the
  job remains. \<^verbatim>\<open>MemStorage.updateApplication\<close> merges the patch into the value and keeps
  the key, so \<^verbatim>\<open>updateApplication(100, { id: 7 })\<close> leaves the application of job 10 under
  the key 100 with the id 7. \<^verbatim>\<open>MemStorage.deleteJob(10)\<close> then deletes the key 7, and
  \<^verbatim>\<open>getJobApplications(10)\<close> still returns the application. The database store, on the
  same job, leaves none.
\<close>

theorem MemStorage_deleteJob_leaves_application:
  "mem_applications (snd (MemStorage_updateApplication mem_ex 6000 100 [Id 7])) =
     [(100, app_rekeyed), (101, app_finished)]
   \<and> app_jobId app_rekeyed = 10
   \<and> MemStorage_getJobApplications
       (MemStorage_deleteJob (snd (MemStorage_updateApplication mem_ex 6000 100 [Id 7])) 10) 10 =
     [app_rekeyed]
   \<and> DatabaseStorage_getJobApplications (snd (DatabaseStorage_deleteJob db_ex 10)) 10 = []"
  by (simp add: MemStorage_updateApplication_def apply_patch_def MemStorage_deleteJob_def
      MemStorage_getJobApplications_def Map_values_def Let_def AList.delete_eq
      DatabaseStorage_deleteJob_cascades
      mem_ex_def app_rekeyed_def app_warehouse_def app_finished_def)

section \<open>Submitting an application\<close>















section \<open>Updating an application\<close>

lemma invalidFields_offending: "invalidFields patch = offending patch"
  by (simp add: invalidFields_def offending_def allowedFields_def)

lemma PUT_api_applications_id_worker_fields:
  assumes "req_user = Some u" and "user_userType u = UserType_WORKER"
    and "DatabaseStorage_getApplication db ident = Some a" and "app_workerId a = user_id u"
    and "offending patch \<noteq> []"
  shows "PUT_api_applications_id db now req_user ident patch =
           (ForbiddenError_fields (offending patch), db)"
  using assms
  by (simp add: PUT_api_applications_id_def UserType_WORKER_def ForbiddenError_fields_def
      invalidFields_offending)

lemma PUT_api_applications_id_employer:
  assumes "req_user = Some u" and "user_userType u = UserType_EMPLOYER"
    and "DatabaseStorage_getApplication db ident = Some a" and "\<not> owns_job_of db u a"
  shows "PUT_api_applications_id db now req_user ident patch = (ForbiddenError_employer, db)"
  using assms
  by (auto simp: PUT_api_applications_id_def UserType_EMPLOYER_def ForbiddenError_employer_def
      owns_job_of_def split: option.splits)

lemma PUT_api_applications_id_mutates:
  assumes "snd (PUT_api_applications_id db now req_user ident patch) \<noteq> db"
  shows "\<exists>actor target. req_user = Some actor \<and>
           DatabaseStorage_getApplication db ident = Some target \<and>
           (user_userType actor = UserType_EMPLOYER \<longrightarrow> owns_job_of db actor target) \<and>
           (user_userType actor = UserType_WORKER \<longrightarrow>
              app_workerId target = user_id actor \<and> offending patch = [])"
  using assms
  by (auto simp: PUT_api_applications_id_def UserType_EMPLOYER_def UserType_WORKER_def
      owns_job_of_def invalidFields_offending split: option.splits if_splits)

lemma PUT_api_applications_id_wendy:
  "PUT_api_applications_id db_ex 7000 (Some wendy) 100
     [CoverLetter (Some ''Dear Edgar''), Status ''accepted'', ExpectedRate (Some 99)] =
   (Response 403 (JMessage ''Workers cannot update these fields: status, expectedRate''), db_ex)"
  by (simp add: PUT_api_applications_id_def DatabaseStorage_getApplication_def db_ex_def
      wendy_def app_warehouse_def app_finished_def invalidFields_def Object_keys_def
      allowedFields_def)

lemma PUT_api_applications_id_edgar:
  "fst (PUT_api_applications_id db_ex 7000 (Some edgar) 100 [Status ''accepted'']) =
     Response 200
       (JApplication (Some (app_warehouse\<lparr>app_status := ''accepted'', app_updatedAt := Some 7000\<rparr>)))
   \<and> tbl_applications (snd (PUT_api_applications_id db_ex 7000 (Some edgar) 100
         [Status ''accepted''])) =
     [app_warehouse\<lparr>app_status := ''accepted'', app_updatedAt := Some 7000\<rparr>, app_finished]"
  by (simp add: PUT_api_applications_id_def DatabaseStorage_getApplication_def db_ex_def
      wendy_def edgar_def erin_def app_warehouse_def app_finished_def
      DatabaseStorage_getJob_def DatabaseStorage_getUser_def
      job_warehouse_def job_decorating_def job_finished_def job_anything_def
      respond_updateApplication_def DatabaseStorage_updateApplication_def apply_patch_def Let_def)

text \<open>
  Claim C6: on \<^verbatim>\<open>PUT /api/applications/:id\<close>, a worker who acts on their own application
  with a patch that has a key other than \<^verbatim>\<open>coverLetter\<close> gets the forbidden answer, whose
  message lists those keys in the order of the patch; an employer who acts on an
  application for a job they do not own (or that does not exist) gets the forbidden
  answer; in both cases the store is unchanged. And a request changes the store only
  when it comes from an authenticated user, for an existing application, and passes
  these checks: an employer owns the job, a worker owns the application and sends no key
  but the cover letter. A user of any other type is not checked by the route.
\<close>

theorem PUT_api_applications_id_authorization:
  "(req_user = Some u \<and> user_userType u = UserType_WORKER \<and>
    DatabaseStorage_getApplication db ident = Some a \<and> app_workerId a = user_id u \<and>
    offending patch \<noteq> [] \<longrightarrow>
      PUT_api_applications_id db now req_user ident patch =
        (ForbiddenError_fields (offending patch), db))
   \<and> (req_user = Some u \<and> user_userType u = UserType_EMPLOYER \<and>
       DatabaseStorage_getApplication db ident = Some a \<and> \<not> owns_job_of db u a \<longrightarrow>
         PUT_api_applications_id db now req_user ident patch = (ForbiddenError_employer, db))
   \<and> (snd (PUT_api_applications_id db now req_user ident patch) \<noteq> db \<longrightarrow>
        (\<exists>actor target. req_user = Some actor \<and>
           DatabaseStorage_getApplication db ident = Some target \<and>
           (user_userType actor = UserType_EMPLOYER \<longrightarrow> owns_job_of db actor target) \<and>
           (user_userType actor = UserType_WORKER \<longrightarrow>
              app_workerId target = user_id actor \<and> offending patch = [])))"
  using PUT_api_applications_id_worker_fields [of req_user u db ident a patch now]
    PUT_api_applications_id_employer [of req_user u db ident a now patch]
    PUT_api_applications_id_mutates [of db now req_user ident patch]
  by blast

theorem PUT_api_applications_id_authorization_witness:
  "offending [CoverLetter (Some ''Dear Edgar''), Status ''accepted'', ExpectedRate (Some 99)]
     = [''status'', ''expectedRate'']
   \<and> PUT_api_applications_id db_ex 7000 (Some wendy) 100
       [CoverLetter (Some ''Dear Edgar''), Status ''accepted'', ExpectedRate (Some 99)] =
     (ForbiddenError_fields [''status'', ''expectedRate''], db_ex)
   \<and> ForbiddenError_fields [''status'', ''expectedRate''] =
       Response 403 (JMessage ''Workers cannot update these fields: status, expectedRate'')
   \<and> \<not> owns_job_of db_ex erin app_warehouse
   \<and> PUT_api_applications_id db_ex 7000 (Some erin) 100 [Status ''accepted''] =
       (ForbiddenError_employer, db_ex)
   \<and> snd (PUT_api_applications_id db_ex 7000 (Some edgar) 100 [Status ''accepted'']) \<noteq> db_ex
   \<and> owns_job_of db_ex edgar app_warehouse"
proof -
  have keys: "offending [CoverLetter (Some ''Dear Edgar''), Status ''accepted'',
                ExpectedRate (Some 99)] = [''status'', ''expectedRate'']"
    by (simp add: offending_def Object_keys_def)
  have worker: "user_userType wendy = UserType_WORKER"
    by (simp add: wendy_def UserType_WORKER_def)
  have employer: "user_userType erin = UserType_EMPLOYER" "user_userType edgar = UserType_EMPLOYER"
    by (simp_all add: erin_def edgar_def UserType_EMPLOYER_def)
  have found: "DatabaseStorage_getApplication db_ex 100 = Some app_warehouse"
    by (simp add: DatabaseStorage_getApplication_def db_ex_def app_warehouse_def)
  have own: "app_workerId app_warehouse = user_id wendy"
    by (simp add: app_warehouse_def wendy_def)
  have foreign: "\<not> owns_job_of db_ex erin app_warehouse"
    by (simp add: owns_job_of_def DatabaseStorage_getJob_def db_ex_def app_warehouse_def
        job_warehouse_def erin_def)
  have wording: "ForbiddenError_fields [''status'', ''expectedRate''] =
       Response 403 (JMessage ''Workers cannot update these fields: status, expectedRate'')"
    by (simp add: ForbiddenError_fields_def)
  have changed: "snd (PUT_api_applications_id db_ex 7000 (Some edgar) 100 [Status ''accepted''])
                   \<noteq> db_ex"
  proof
    assume "snd (PUT_api_applications_id db_ex 7000 (Some edgar) 100 [Status ''accepted''])
              = db_ex"
    then have "tbl_applications db_ex =
        [app_warehouse\<lparr>app_status := ''accepted'', app_updatedAt := Some 7000\<rparr>, app_finished]"
      using PUT_api_applications_id_edgar by simp
    then show False
      by (simp add: db_ex_def app_warehouse_def)
  qed
  have one: "PUT_api_applications_id db_ex 7000 (Some wendy) 100
       [CoverLetter (Some ''Dear Edgar''), Status ''accepted'', ExpectedRate (Some 99)] =
     (ForbiddenError_fields [''status'', ''expectedRate''], db_ex)"
    using keys worker found own
      PUT_api_applications_id_authorization
        [of "Some wendy" wendy db_ex 100 app_warehouse
            "[CoverLetter (Some ''Dear Edgar''), Status ''accepted'', ExpectedRate (Some 99)]" 7000]
    by simp
  have two: "PUT_api_applications_id db_ex 7000 (Some erin) 100 [Status ''accepted''] =
       (ForbiddenError_employer, db_ex)"
    using employer found foreign
      PUT_api_applications_id_authorization
        [of "Some erin" erin db_ex 100 app_warehouse "[Status ''accepted'']" 7000]
    by simp
  have three: "owns_job_of db_ex edgar app_warehouse"
    using employer found changed
      PUT_api_applications_id_authorization
        [of "Some edgar" edgar db_ex 100 app_warehouse "[Status ''accepted'']" 7000]
    by auto
  show ?thesis
    using keys one wording foreign two changed three by simp
qed

section \<open>Notifying a user\<close>

lemma notifyUser_sends:
  "snd (notifyUser conns userId p) = map (\<lambda>conn. (ws_id conn, p)) (open_channels conns userId)"
  by (auto simp: notifyUser_def open_channels_def registered_def split: option.splits)

lemma notifyUser_flag: "fst (notifyUser conns userId p) \<longleftrightarrow> registered conns userId \<noteq> []"
  by (auto simp: notifyUser_def registered_def split: option.splits)

lemma notifyUser_unregistered:
  "registered conns userId = [] \<Longrightarrow> notifyUser conns userId p = (False, [])"
  by (auto simp: notifyUser_def registered_def split: option.splits)

text \<open>
  Claim C9 as stated: \<^verbatim>\<open>notifyUser\<close> returns true if and only if at least one channel
  received the payload. It returns true as soon as the user has a registered channel:
  user 1 has one channel, which is closing; nothing is sent and the answer is true.
\<close>

theorem notifyUser_true_without_delivery_counterexample:
  "registered conns_ex 1 = [\<lparr>ws_id = 9, ws_readyState = CLOSING\<rparr>]
   \<and> notifyUser conns_ex 1 (New_message 3 2 ''Edgar Employer'') = (True, [])"
  by (simp add: notifyUser_def registered_def conns_ex_def)

text \<open>
  Claim C9, amended: \<^verbatim>\<open>notifyUser(userId, payload)\<close> sends the payload to every open
  channel registered for the user, in the order of registration, and to no other; it
  returns true if and only if at least one channel, open or not, is registered for the
  user; with no registered channel it returns false and sends nothing.
\<close>

theorem notifyUser_delivers_to_open_channels:
  "snd (notifyUser conns userId p) = map (\<lambda>conn. (ws_id conn, p)) (open_channels conns userId)
   \<and> (fst (notifyUser conns userId p) \<longleftrightarrow> registered conns userId \<noteq> [])
   \<and> (registered conns userId = [] \<longrightarrow> notifyUser conns userId p = (False, []))"
  using notifyUser_sends [of conns userId p] notifyUser_flag [of conns userId p]
    notifyUser_unregistered [of conns userId p]
  by blast

theorem notifyUser_delivers_to_open_channels_witness:
  "registered conns_ex 3 = []
   \<and> notifyUser conns_ex 3 (New_message 3 1 ''Wendy Welder'') = (False, [])
   \<and> open_channels conns_ex 2 = [\<lparr>ws_id = 7, ws_readyState = OPEN\<rparr>]
   \<and> notifyUser conns_ex 2 (New_message 3 1 ''Wendy Welder'') =
       (True, [(7, New_message 3 1 ''Wendy Welder'')])"
proof -
  have none: "registered conns_ex 3 = []"
    by (simp add: registered_def conns_ex_def)
  have two: "registered conns_ex 2 =
      [\<lparr>ws_id = 7, ws_readyState = OPEN\<rparr>, \<lparr>ws_id = 8, ws_readyState = CLOSING\<rparr>]"
    by (simp add: registered_def conns_ex_def)
  have opened: "open_channels conns_ex 2 = [\<lparr>ws_id = 7, ws_readyState = OPEN\<rparr>]"
    by (simp add: open_channels_def two)
  have silent: "notifyUser conns_ex 3 (New_message 3 1 ''Wendy Welder'') = (False, [])"
    using none
      notifyUser_delivers_to_open_channels [of conns_ex 3 "New_message 3 1 ''Wendy Welder''"]
    by simp
  have sent: "notifyUser conns_ex 2 (New_message 3 1 ''Wendy Welder'') =
       (True, [(7, New_message 3 1 ''Wendy Welder'')])"
    using two opened
      notifyUser_delivers_to_open_channels [of conns_ex 2 "New_message 3 1 ''Wendy Welder''"]
    by (simp add: prod_eq_iff)
  show ?thesis
    using none silent opened sent by simp
qed


section \<open>Sending a message\<close>

lemma POST_api_messages_persists:
  assumes "req_user = Some u" and "is_user (srv_db srv) (user_id u)"
    and "body_toUserId req_body = Some toUserId" and "body_content req_body = Some content"
    and "is_user (srv_db srv) toUserId" and "fresh_ids (srv_db srv)"
  shows "\<exists>m n srv'.
     POST_api_messages srv now1 now2 req_user req_body = (Response 201 (JMessageRow m), srv')
     \<and> msg_fromUserId m = user_id u \<and> msg_toUserId m = toUserId \<and> msg_content m = content
     \<and> msg_isRead m = False
     \<and> ntf_userId n = toUserId \<and> ntf_type n = ''message'' \<and> ntf_relatedId n = Some (msg_id m)
     \<and> tbl_messages (srv_db srv') = tbl_messages (srv_db srv) @ [m]
     \<and> tbl_notifications (srv_db srv') = tbl_notifications (srv_db srv) @ [n]
     \<and> srv_log srv' = srv_log srv @ [InsertMessage m, InsertNotification n] @
          map (\<lambda>conn. WsSend (ws_id conn) (New_message (msg_id m) (user_id u) (user_fullName u)))
            (open_channels (srv_activeConnections srv) toUserId)"
  using assms
  by (simp add: POST_api_messages_def insertMessageSchema_parse_def is_user_def fresh_ids_def
      DatabaseStorage_createMessage_def DatabaseStorage_createNotification_def Let_def
      DatabaseStorage_getUser_def notifyUser_sends split_beta comp_def)

lemma seq_ahead_fresh_ids: "seq_ahead db \<Longrightarrow> fresh_ids db"
  by (auto simp: seq_ahead_def fresh_ids_def list_all_iff list_ex_iff)

lemma DatabaseStorage_createMessage_seq_ahead:
  "seq_ahead db \<Longrightarrow> seq_ahead (snd (DatabaseStorage_createMessage db now m))"
  by (auto simp: seq_ahead_def DatabaseStorage_createMessage_def Let_def list_all_iff)

lemma DatabaseStorage_createNotification_seq_ahead:
  "seq_ahead db \<Longrightarrow> seq_ahead (snd (DatabaseStorage_createNotification db now n))"
  by (auto simp: seq_ahead_def DatabaseStorage_createNotification_def Let_def list_all_iff)

lemma POST_api_messages_seq_ahead:
  assumes "seq_ahead (srv_db srv)"
  shows "seq_ahead (srv_db (snd (POST_api_messages srv now1 now2 req_user req_body)))"
proof (cases "\<exists>u v. req_user = Some u \<and> insertMessageSchema_parse req_body (user_id u) = Some v")
  case False
  then show ?thesis
    using assms by (auto simp: POST_api_messages_def split: option.splits)
next
  case True
  then obtain u v where u: "req_user = Some u"
    and v: "insertMessageSchema_parse req_body (user_id u) = Some v"
    by blast
  obtain r1 db1 where one: "DatabaseStorage_createMessage (srv_db srv) now1 v = (r1, db1)"
    by (cases "DatabaseStorage_createMessage (srv_db srv) now1 v")
  have ahead1: "seq_ahead db1"
    using DatabaseStorage_createMessage_seq_ahead [OF assms, of now1 v] one by simp
  show ?thesis
  proof (cases r1)
    case (Inl e)
    then show ?thesis
      using u v one ahead1 by (simp add: POST_api_messages_def)
  next
    case (Inr m)
    let ?n = "\<lparr>in_userId = im_toUserId v, in_title = ''New Message'',
               in_content = ''You have a new message from '' @ user_fullName u,
               in_type = ''message'', in_relatedId = Some (msg_id m)\<rparr>"
    obtain r2 db2 where two: "DatabaseStorage_createNotification db1 now2 ?n = (r2, db2)"
      by (cases "DatabaseStorage_createNotification db1 now2 ?n")
    have ahead2: "seq_ahead db2"
      using DatabaseStorage_createNotification_seq_ahead [OF ahead1, of now2 ?n] two by simp
    show ?thesis
      using u v one Inr two ahead2
      by (cases r2) (simp_all add: POST_api_messages_def split_beta)
  qed
qed

lemma open_channels_unregistered:
  "registered conns userId = [] \<Longrightarrow> open_channels conns userId = []"
  by (simp add: open_channels_def)

lemma POST_api_messages_to_edgar:
  "fst (POST_api_messages srv_ex 8000 8001 (Some wendy) body_to_edgar) =
     Response 201 (JMessageRow msg_to_edgar)
   \<and> srv_log (snd (POST_api_messages srv_ex 8000 8001 (Some wendy) body_to_edgar)) =
     [InsertMessage msg_to_edgar, InsertNotification ntf_to_edgar,
      WsSend 7 (New_message 3 1 ''Wendy Welder'')]"
  by (simp add: POST_api_messages_def insertMessageSchema_parse_def
      DatabaseStorage_createMessage_def DatabaseStorage_createNotification_def Let_def
      DatabaseStorage_getUser_def notifyUser_def srv_ex_def conns_ex_def db_ex_def
      wendy_def edgar_def erin_def msg_first_def msg_second_def body_to_edgar_def
      msg_to_edgar_def ntf_to_edgar_def)

lemma POST_api_messages_to_erin:
  "fst (POST_api_messages srv_ex 8000 8001 (Some wendy) body_to_erin) =
     Response 201 (JMessageRow msg_to_erin)
   \<and> srv_log (snd (POST_api_messages srv_ex 8000 8001 (Some wendy) body_to_erin)) =
     [InsertMessage msg_to_erin, InsertNotification ntf_to_erin]
   \<and> tbl_messages (srv_db (snd (POST_api_messages srv_ex 8000 8001 (Some wendy) body_to_erin))) =
     [msg_first, msg_second, msg_to_erin]
   \<and> tbl_notifications
       (srv_db (snd (POST_api_messages srv_ex 8000 8001 (Some wendy) body_to_erin))) =
     [ntf_to_erin]"
  by (simp add: POST_api_messages_def insertMessageSchema_parse_def
      DatabaseStorage_createMessage_def DatabaseStorage_createNotification_def Let_def
      DatabaseStorage_getUser_def notifyUser_def srv_ex_def conns_ex_def db_ex_def
      wendy_def edgar_def erin_def msg_first_def msg_second_def body_to_erin_def
      msg_to_erin_def ntf_to_erin_def)

text \<open>
  Claim C8: a \<^verbatim>\<open>POST /api/messages\<close> of an authenticated user whose body has a recipient
  and a content, with sender and recipient rows of \<^verbatim>\<open>users\<close> and the two id sequences
  fresh (so that the inserts do not throw; the sequences stay ahead of the tables under
  this handler), is answered 201 with the message; the message
  is appended to \<^verbatim>\<open>messages\<close> with \<^verbatim>\<open>isRead = false\<close>, a notification for the recipient
  with type \<^verbatim>\<open>message\<close> and \<^verbatim>\<open>relatedId\<close> the id of the message is appended to
  \<^verbatim>\<open>notifications\<close>, and the log of the handler shows the two inserts before every send
  to a socket. The sends go to the open channels of the recipient; with no channel
  registered there is none, and the answer is the same.
\<close>

theorem POST_api_messages_persists_before_delivery:
  "req_user = Some u \<and> is_user (srv_db srv) (user_id u) \<and>
   body_toUserId req_body = Some toUserId \<and> body_content req_body = Some content \<and>
   is_user (srv_db srv) toUserId \<and> fresh_ids (srv_db srv) \<longrightarrow>
     (\<exists>m n srv'.
        POST_api_messages srv now1 now2 req_user req_body = (Response 201 (JMessageRow m), srv')
        \<and> msg_fromUserId m = user_id u \<and> msg_toUserId m = toUserId \<and> msg_content m = content
        \<and> msg_isRead m = False
        \<and> ntf_userId n = toUserId \<and> ntf_type n = ''message''
        \<and> ntf_relatedId n = Some (msg_id m)
        \<and> tbl_messages (srv_db srv') = tbl_messages (srv_db srv) @ [m]
        \<and> tbl_notifications (srv_db srv') = tbl_notifications (srv_db srv) @ [n]
        \<and> srv_log srv' = srv_log srv @ [InsertMessage m, InsertNotification n] @
             map (\<lambda>conn. WsSend (ws_id conn)
                           (New_message (msg_id m) (user_id u) (user_fullName u)))
               (open_channels (srv_activeConnections srv) toUserId)
        \<and> (registered (srv_activeConnections srv) toUserId = [] \<longrightarrow>
             srv_log srv' = srv_log srv @ [InsertMessage m, InsertNotification n]))"
proof
  assume h: "req_user = Some u \<and> is_user (srv_db srv) (user_id u) \<and>
   body_toUserId req_body = Some toUserId \<and> body_content req_body = Some content \<and>
   is_user (srv_db srv) toUserId \<and> fresh_ids (srv_db srv)"
  then obtain m n srv' where
    run: "POST_api_messages srv now1 now2 req_user req_body = (Response 201 (JMessageRow m), srv')"
    and row: "msg_fromUserId m = user_id u" "msg_toUserId m = toUserId" "msg_content m = content"
      "msg_isRead m = False"
    and notif: "ntf_userId n = toUserId" "ntf_type n = ''message''"
      "ntf_relatedId n = Some (msg_id m)"
    and tables: "tbl_messages (srv_db srv') = tbl_messages (srv_db srv) @ [m]"
      "tbl_notifications (srv_db srv') = tbl_notifications (srv_db srv) @ [n]"
    and log: "srv_log srv' = srv_log srv @ [InsertMessage m, InsertNotification n] @
          map (\<lambda>conn. WsSend (ws_id conn) (New_message (msg_id m) (user_id u) (user_fullName u)))
            (open_channels (srv_activeConnections srv) toUserId)"
    using POST_api_messages_persists [of req_user u srv req_body toUserId content now1 now2]
    by blast
  have "registered (srv_activeConnections srv) toUserId = [] \<longrightarrow>
          srv_log srv' = srv_log srv @ [InsertMessage m, InsertNotification n]"
    using log by (simp add: open_channels_unregistered)
  with run row notif tables log
  show "\<exists>m n srv'.
        POST_api_messages srv now1 now2 req_user req_body = (Response 201 (JMessageRow m), srv')
        \<and> msg_fromUserId m = user_id u \<and> msg_toUserId m = toUserId \<and> msg_content m = content
        \<and> msg_isRead m = False
        \<and> ntf_userId n = toUserId \<and> ntf_type n = ''message''
        \<and> ntf_relatedId n = Some (msg_id m)
        \<and> tbl_messages (srv_db srv') = tbl_messages (srv_db srv) @ [m]
        \<and> tbl_notifications (srv_db srv') = tbl_notifications (srv_db srv) @ [n]
        \<and> srv_log srv' = srv_log srv @ [InsertMessage m, InsertNotification n] @
             map (\<lambda>conn. WsSend (ws_id conn)
                           (New_message (msg_id m) (user_id u) (user_fullName u)))
               (open_channels (srv_activeConnections srv) toUserId)
        \<and> (registered (srv_activeConnections srv) toUserId = [] \<longrightarrow>
             srv_log srv' = srv_log srv @ [InsertMessage m, InsertNotification n])"
    by blast
qed

theorem POST_api_messages_persists_before_delivery_witness:
  "is_user (srv_db srv_ex) (user_id wendy)
   \<and> is_user (srv_db srv_ex) 3
   \<and> fresh_ids (srv_db srv_ex)
   \<and> registered (srv_activeConnections srv_ex) 3 = []
   \<and> fst (POST_api_messages srv_ex 8000 8001 (Some wendy) body_to_erin) =
       Response 201 (JMessageRow msg_to_erin)
   \<and> msg_isRead msg_to_erin = False
   \<and> srv_log (snd (POST_api_messages srv_ex 8000 8001 (Some wendy) body_to_erin)) =
       [InsertMessage msg_to_erin, InsertNotification ntf_to_erin]
   \<and> tbl_messages (srv_db (snd (POST_api_messages srv_ex 8000 8001 (Some wendy) body_to_erin))) =
       [msg_first, msg_second, msg_to_erin]
   \<and> tbl_notifications
       (srv_db (snd (POST_api_messages srv_ex 8000 8001 (Some wendy) body_to_erin))) =
       [ntf_to_erin]
   \<and> srv_log (snd (POST_api_messages srv_ex 8000 8001 (Some wendy) body_to_edgar)) =
       [InsertMessage msg_to_edgar, InsertNotification ntf_to_edgar,
        WsSend 7 (New_message 3 1 ''Wendy Welder'')]
   \<and> (\<exists>m n. srv_log (snd (POST_api_messages srv_ex 8000 8001 (Some wendy) body_to_erin)) =
               [InsertMessage m, InsertNotification n]
            \<and> ntf_relatedId n = Some (msg_id m) \<and> ntf_type n = ''message'' \<and> ntf_userId n = 3)"
proof -
  have sender: "is_user (srv_db srv_ex) (user_id wendy)"
    by (simp add: is_user_def DatabaseStorage_getUser_def srv_ex_def db_ex_def wendy_def)
  have recipient: "is_user (srv_db srv_ex) 3"
    by (simp add: is_user_def DatabaseStorage_getUser_def srv_ex_def db_ex_def
        wendy_def edgar_def erin_def)
  have fresh: "fresh_ids (srv_db srv_ex)"
    by (simp add: fresh_ids_def srv_ex_def db_ex_def msg_first_def msg_second_def)
  have offline: "registered (srv_activeConnections srv_ex) 3 = []"
    by (simp add: registered_def srv_ex_def conns_ex_def)
  have body: "body_toUserId body_to_erin = Some 3" "body_content body_to_erin = Some ''Good morning''"
    by (simp_all add: body_to_erin_def)
  have unread: "msg_isRead msg_to_erin = False"
    by (simp add: msg_to_erin_def)
  have empty: "srv_log srv_ex = []"
    by (simp add: srv_ex_def)
  from sender recipient fresh body
    POST_api_messages_persists_before_delivery
      [of "Some wendy" wendy srv_ex body_to_erin 3 "''Good morning''" 8000 8001]
  obtain m n srv' where
    run: "POST_api_messages srv_ex 8000 8001 (Some wendy) body_to_erin =
            (Response 201 (JMessageRow m), srv')"
    and notif: "ntf_userId n = 3" "ntf_type n = ''message''" "ntf_relatedId n = Some (msg_id m)"
    and quiet: "registered (srv_activeConnections srv_ex) 3 = [] \<longrightarrow>
             srv_log srv' = srv_log srv_ex @ [InsertMessage m, InsertNotification n]"
    by blast
  have "srv_log (snd (POST_api_messages srv_ex 8000 8001 (Some wendy) body_to_erin)) =
          [InsertMessage m, InsertNotification n]"
    using run quiet offline empty by simp
  with notif have last: "\<exists>m n.
      srv_log (snd (POST_api_messages srv_ex 8000 8001 (Some wendy) body_to_erin)) =
        [InsertMessage m, InsertNotification n]
      \<and> ntf_relatedId n = Some (msg_id m) \<and> ntf_type n = ''message'' \<and> ntf_userId n = 3"
    by blast
  show ?thesis
    using sender recipient fresh offline unread last
      POST_api_messages_to_erin POST_api_messages_to_edgar
    by simp
qed

section \<open>The job-match endpoint\<close>

lemma route_get_match:
  "route_get [''api'', ''jobs'', ''match'', w] = Some (H_jobs_match_first, [(''workerId'', w)])"
  by (simp add: route_get_def get_routes_def)

lemma route_get_never_second: "route_get path \<noteq> Some (H_jobs_match_second, params)"
  by (auto simp: route_get_def get_routes_def split: option.splits if_splits)

lemma DatabaseStorage_no_worker_no_match:
  "int4 n \<Longrightarrow> DatabaseStorage_getWorkerWithProfile db n = None \<Longrightarrow>
     DatabaseStorage_getMatchedJobsForWorker db array_in n = Inr []"
  by (simp add: DatabaseStorage_getMatchedJobsForWorker_def bind_id_def)

lemma GET_request_no_worker:
  "parseInt w = Some n \<Longrightarrow> int4 n \<Longrightarrow> DatabaseStorage_getWorkerWithProfile db n = None \<Longrightarrow>
     GET_request parseInt array_in db [''api'', ''jobs'', ''match'', w] =
       Some (Response 200 (JJobs []))
     \<and> GET_api_jobs_match_second array_in db (parseInt w) =
       Response 404 (JMessage ''Worker not found'')"
  by (simp add: GET_request_def route_get_match GET_api_jobs_match_first_def
      GET_api_jobs_match_second_def DatabaseStorage_no_worker_no_match bind_id_def)

lemma GET_request_not_bound:
  "parseInt w = None \<or> (\<exists>n. parseInt w = Some n \<and> \<not> int4 n) \<Longrightarrow>
     GET_request parseInt array_in db [''api'', ''jobs'', ''match'', w] = Some InternalError_match"
  by (auto simp: GET_request_def route_get_match GET_api_jobs_match_first_def
      DatabaseStorage_getMatchedJobsForWorker_def bind_id_def InternalError_match_def)

text \<open>
  Claim C10 as stated: for every workerId for which no worker user exists, the request
  succeeds with the empty list. No user has the id 99999999999, which is no four-byte
  integer: the first query of the handler cannot bind it, the storage throws, and the
  handler answers 500.
\<close>

theorem GET_api_jobs_match_out_of_range_counterexample:
  "parseInt_ex ''99999999999'' = Some 99999999999
   \<and> DatabaseStorage_getUser db_ex 99999999999 = None
   \<and> DatabaseStorage_getWorkerWithProfile db_ex 99999999999 = None
   \<and> GET_request parseInt_ex array_in_ex db_ex [''api'', ''jobs'', ''match'', ''99999999999''] =
       Some (Response 500 (JMessage ''Failed to retrieve matched jobs''))"
  by (simp add: GET_request_def route_get_match GET_api_jobs_match_first_def
      DatabaseStorage_getMatchedJobsForWorker_def bind_id_def int4_def parseInt_ex_def
      DatabaseStorage_getWorkerWithProfile_def DatabaseStorage_getUser_def
      db_ex_def wendy_def edgar_def erin_def)

text \<open>
  Claim C10, amended: a request \<^verbatim>\<open>GET /api/jobs/match/:workerId\<close> goes to the handler
  registered first for that path; no path ever reaches the handler registered second;
  when the parameter is read as an integer that the id column can hold and no worker user
  has that id (no user, or a user who is not a worker), the request is answered 200 with
  the empty list, where the second handler would have answered 404; and when the
  parameter is not read as a number, or as one outside that range, the request is
  answered 500.
\<close>

theorem GET_api_jobs_match_first_handler_answers:
  "route_get [''api'', ''jobs'', ''match'', w] = Some (H_jobs_match_first, [(''workerId'', w)])
   \<and> route_get path \<noteq> Some (H_jobs_match_second, params)
   \<and> (parseInt w = Some n \<and> int4 n \<and> DatabaseStorage_getWorkerWithProfile db n = None \<longrightarrow>
        GET_request parseInt array_in db [''api'', ''jobs'', ''match'', w] =
          Some (Response 200 (JJobs []))
        \<and> GET_api_jobs_match_second array_in db (parseInt w) =
            Response 404 (JMessage ''Worker not found''))
   \<and> (parseInt w = None \<or> (\<exists>k. parseInt w = Some k \<and> \<not> int4 k) \<longrightarrow>
        GET_request parseInt array_in db [''api'', ''jobs'', ''match'', w] =
          Some InternalError_match)"
  using route_get_match [of w] route_get_never_second [of path params]
    GET_request_no_worker [of parseInt w n db array_in]
    GET_request_not_bound [of parseInt w array_in db]
  by blast

theorem GET_api_jobs_match_first_handler_answers_witness:
  "parseInt_ex ''99'' = Some 99
   \<and> int4 99
   \<and> DatabaseStorage_getWorkerWithProfile db_ex 99 = None
   \<and> GET_request parseInt_ex array_in_ex db_ex [''api'', ''jobs'', ''match'', ''99''] =
       Some (Response 200 (JJobs []))
   \<and> GET_api_jobs_match_second array_in_ex db_ex (Some 99) =
       Response 404 (JMessage ''Worker not found'')
   \<and> parseInt_ex ''2'' = Some 2
   \<and> DatabaseStorage_getUser db_ex 2 = Some edgar
   \<and> GET_request parseInt_ex array_in_ex db_ex [''api'', ''jobs'', ''match'', ''2''] =
       Some (Response 200 (JJobs []))
   \<and> parseInt_ex ''abc'' = None
   \<and> GET_request parseInt_ex array_in_ex db_ex [''api'', ''jobs'', ''match'', ''abc''] =
       Some InternalError_match"
proof -
  have parsed: "parseInt_ex ''99'' = Some 99" "parseInt_ex ''2'' = Some 2"
    "parseInt_ex ''abc'' = None"
    by (simp_all add: parseInt_ex_def)
  have in_range: "int4 99" "int4 2"
    by (simp_all add: int4_def)
  have nobody: "DatabaseStorage_getWorkerWithProfile db_ex 99 = None"
    by (simp add: DatabaseStorage_getWorkerWithProfile_def DatabaseStorage_getUser_def
        db_ex_def wendy_def edgar_def erin_def)
  have employer: "DatabaseStorage_getUser db_ex 2 = Some edgar"
    by (simp add: DatabaseStorage_getUser_def db_ex_def wendy_def edgar_def)
  have not_worker: "DatabaseStorage_getWorkerWithProfile db_ex 2 = None"
    by (simp add: DatabaseStorage_getWorkerWithProfile_def employer edgar_def UserType_WORKER_def)
  show ?thesis
    using parsed in_range nobody employer not_worker
      GET_api_jobs_match_first_handler_answers
        [of "''99''" "[]" "[]" parseInt_ex 99 db_ex array_in_ex]
      GET_api_jobs_match_first_handler_answers
        [of "''2''" "[]" "[]" parseInt_ex 2 db_ex array_in_ex]
      GET_api_jobs_match_first_handler_answers
        [of "''abc''" "[]" "[]" parseInt_ex 0 db_ex array_in_ex]
    by simp
qed

section \<open>The rating of a user\<close>

text \<open>
  With no rating addressed to the user, both stores return before the division and
  leave the store as it is.
\<close>

lemma MemStorage_updateUserRating_no_ratings:
  "MemStorage_getUserRatings s userId = [] \<Longrightarrow>
     MemStorage_updateUserRating s userId = (MemStorage_getUser s userId, s)"
  by (simp add: MemStorage_updateUserRating_def split: option.splits)

lemma DatabaseStorage_updateUserRating_no_ratings:
  "int4 userId \<Longrightarrow> DatabaseStorage_getUserRatings db userId = [] \<Longrightarrow>
     DatabaseStorage_updateUserRating db userId = (Inr (DatabaseStorage_getUser db userId), db)"
  by (simp add: DatabaseStorage_updateUserRating_def bind_id_def)

lemma ratings_to_edgar:
  "MemStorage_getUserRatings mem_rated 2 = ratings_ex"
  "DatabaseStorage_getUserRatings db_rated 2 = ratings_ex"
  by (simp_all add: MemStorage_getUserRatings_def DatabaseStorage_getUserRatings_def
      mem_rated_def db_rated_def Map_values_def ratings_ex_def rating_ex_def comp_def)

lemma ratings_ex_not_empty: "ratings_ex \<noteq> []"
  by (simp add: ratings_ex_def)

lemma totalRating_ex: "totalRating ratings_ex = 87"
  by code_simp

lemma averageRating_ex: "averageRating ratings_ex = double (87 / 20)"
  by (simp add: averageRating_def totalRating_ex js_div_def) (simp add: ratings_ex_def)

lemma mean_ex: "mean ratings_ex = 87 / 20"
  by code_simp

lemma double_ex: "double (87 / 20) < 87 / 20"
  by code_simp

lemma toFixed_1_ex: "toFixed_1 (double (87 / 20)) = 43 / 10"
  by code_simp

lemma round_1_ex: "round_1 (87 / 20) = 44 / 10"
  by code_simp

lemma toFixed_1_quarter: "toFixed_1 (double (17 / 4)) = 43 / 10"
  by code_simp

lemma parseFloat_ex: "parseFloat (43 / 10) \<noteq> parseFloat (44 / 10)"
  by code_simp

lemma real_column_ex: "real_column (parseFloat (43 / 10)) \<noteq> real_column (parseFloat (44 / 10))"
  by code_simp

lemma MemStorage_getUser_edgar: "MemStorage_getUser mem_rated 2 = Some edgar"
  by (simp add: MemStorage_getUser_def mem_rated_def mem_ex_def)

lemma MemStorage_updateUserRating_ex:
  "MemStorage_getUser (snd (MemStorage_updateUserRating mem_rated 2)) 2 =
     Some (edgar\<lparr>user_rating := Some (parseFloat (43 / 10))\<rparr>)"
  by (simp add: MemStorage_updateUserRating_def MemStorage_getUser_edgar ratings_to_edgar
      ratings_ex_not_empty averageRating_ex toFixed_1_ex Let_def)
     (simp add: MemStorage_getUser_def AList.update_conv')

lemma DatabaseStorage_updateUserRating_ex:
  "DatabaseStorage_updateUserRating db_rated 2 =
     (Inr (Some (edgar\<lparr>user_rating := Some (real_column (parseFloat (43 / 10)))\<rparr>)),
      db_rated\<lparr>tbl_users :=
        [wendy, edgar\<lparr>user_rating := Some (real_column (parseFloat (43 / 10)))\<rparr>, erin]\<rparr>)"
  by (simp add: DatabaseStorage_updateUserRating_def bind_id_def int4_def ratings_to_edgar
      ratings_ex_not_empty averageRating_ex toFixed_1_ex DatabaseStorage_updateUser_def Let_def)
     (simp add: db_rated_def db_ex_def wendy_def edgar_def erin_def)

text \<open>
  Claim C4: after a rating submission the stored rating of the recipient is the mean of
  the ratings addressed to that user, rounded to one decimal place; with no rating the
  stored rating stays what it was. The second half holds in both stores (the two lemmas
  on a user without ratings above). The first does not: user 2 has twenty ratings, seven
  of 5 and thirteen of 4, with the mean 4.35. The double nearest to 87 / 20 is below
  4.35, so \<^verbatim>\<open>toFixed(1)\<close> prints 4.3, and both stores write what \<^verbatim>\<open>parseFloat\<close> reads
  from that, where the mean rounded to one decimal place is 4.4. A mean of 4.25, which
  is a double, is printed as 4.3: the code follows no rule for a half.
\<close>

theorem updateUserRating_rounds_down_a_half:
  "mean ratings_ex = 87 / 20
   \<and> round_1 (mean ratings_ex) = 44 / 10
   \<and> averageRating ratings_ex = double (87 / 20)
   \<and> double (87 / 20) < 87 / 20
   \<and> toFixed_1 (averageRating ratings_ex) = 43 / 10
   \<and> MemStorage_getUser (snd (MemStorage_updateUserRating mem_rated 2)) 2 =
       Some (edgar\<lparr>user_rating := Some (parseFloat (43 / 10))\<rparr>)
   \<and> parseFloat (43 / 10) \<noteq> parseFloat (44 / 10)
   \<and> DatabaseStorage_getUser (snd (DatabaseStorage_updateUserRating db_rated 2)) 2 =
       Some (edgar\<lparr>user_rating := Some (real_column (parseFloat (43 / 10)))\<rparr>)
   \<and> real_column (parseFloat (43 / 10)) \<noteq> real_column (parseFloat (44 / 10))
   \<and> toFixed_1 (double (17 / 4)) = 43 / 10"
proof -
  have rounded: "round_1 (mean ratings_ex) = 44 / 10"
    by (simp only: mean_ex round_1_ex)
  have printed: "toFixed_1 (averageRating ratings_ex) = 43 / 10"
    by (simp only: averageRating_ex toFixed_1_ex)
  have written: "DatabaseStorage_getUser (snd (DatabaseStorage_updateUserRating db_rated 2)) 2 =
       Some (edgar\<lparr>user_rating := Some (real_column (parseFloat (43 / 10)))\<rparr>)"
    by (simp add: DatabaseStorage_updateUserRating_ex DatabaseStorage_getUser_def
        wendy_def edgar_def)
  show ?thesis
    using mean_ex rounded averageRating_ex double_ex printed MemStorage_updateUserRating_ex
      parseFloat_ex written real_column_ex toFixed_1_quarter
    by blast
qed


end
